theory Spec2Isabelle
  imports Complex_Main "HOL-Library.Char_ord" "HOL-Library.List_Lexorder" "HOL-Library.Multiset"
begin

section \<open>The playout engine \<open>ffplayout.py\<close>: data model\<close>

text \<open>
  Python floats are modelled as \<^typ>\<open>real\<close> (exact arithmetic), Python integers as
  \<^typ>\<open>int\<close>, strings as \<^typ>\<open>string\<close>. Exceptions are values of \<open>py_error\<close>;
  the messenger's output (log records and mails) is an explicit list of events.
\<close>

datatype py_error = TypeError | IndexError | KeyError | ZeroDivisionError
  | AttributeError | SystemExit

datatype level = DEBUG | INFO | WARNING | ERROR

datatype event = Log level string | Mail string | Yield "string list"

text \<open>A computation: the events it emitted (log records, mails, and the argument
  vectors a generator yielded), and the exception it raised or its value.\<close>

type_synonym 'a io = "event list \<times> (py_error + 'a)"

definition ret :: "'a \<Rightarrow> 'a io" where
  "ret x = ([], Inr x)"

definition raise :: "py_error \<Rightarrow> 'a io" where
  "raise e = ([], Inl e)"

definition emit :: "event list \<Rightarrow> unit io" where
  "emit evs = (evs, Inr ())"

definition lift :: "py_error + 'a \<Rightarrow> 'a io" where
  "lift r = ([], r)"

definition bind :: "'a io \<Rightarrow> ('a \<Rightarrow> 'b io) \<Rightarrow> 'b io" where
  "bind m f =
     (case m of
        (l1, Inl e) \<Rightarrow> (l1, Inl e)
      | (l1, Inr x) \<Rightarrow> (case f x of (l2, r) \<Rightarrow> (l1 @ l2, r)))"

text \<open>The configuration namespaces \<open>_general\<close>, \<open>_mail\<close>, \<open>_pre_comp\<close>, \<open>_playlist\<close>,
  \<open>_storage\<close> and the command line flag \<open>--loop\<close>, as far as the modelled functions
  read them.\<close>

record config =
  general_stop :: bool
  general_threshold :: real
  mail_recip :: string
  mail_level :: string
  pre_comp_w :: int
  pre_comp_h :: int
  pre_comp_aspect :: real
  pre_comp_fps :: int
  pre_comp_add_logo :: bool
  pre_comp_logo :: string
  pre_comp_opacity :: string
  pre_comp_logo_filter :: string
  pre_comp_add_loudnorm :: bool
  pre_comp_loud_i :: real
  pre_comp_loud_tp :: real
  pre_comp_loud_lra :: real
  pre_comp_protocols :: string
  playlist_start :: real
  playlist_length :: "real option"
  storage_filler :: string
  storage_extensions :: "string list"
  storage_shuffle :: bool
  stdin_loop :: bool

text \<open>A stream entry of \<open>MediaProbe\<close>. \<open>load\<close> always sets \<open>aspect\<close> and \<open>fps\<close> of a
  video stream; \<open>field_order\<close> and \<open>duration\<close> are keys that may be absent. A failed
  probe leaves \<open>format = None\<close>, \<open>audio = [None]\<close> and \<open>video = [None]\<close>.\<close>

record vstream =
  width :: int
  height :: int
  aspect :: real
  fps :: real
  field_order :: "string option"
  v_duration :: "real option"

record astream =
  a_duration :: "real option"

record media_probe =
  probe_src :: string
  format_duration :: "real option option"
  audio :: "astream option list"
  video :: "vstream option list"

text \<open>What the functions observe of the Python runtime, the file system and the external
  prober: \<open>os.path.isfile\<close>, the rendering of a float by \<open>str\<close> and \<open>'{}'.format\<close>, its
  rendering by \<open>'{0:.2f}'.format\<close>, the recursive \<open>glob.glob\<close> of a folder for an extension
  pattern, the streams \<open>ffprobe\<close> reports for a file (\<open>None\<close> when it fails), and the
  duration its \<open>format=duration\<close> query prints (\<open>None\<close> when it fails or prints no number).\<close>

record world =
  isfile :: "string \<Rightarrow> bool"
  str_num :: "real \<Rightarrow> string"
  fmt_2f :: "real \<Rightarrow> string"
  glob_rec :: "string \<Rightarrow> string \<Rightarrow> string list"
  ffprobe :: "string \<Rightarrow> media_probe option"
  ffprobe_duration :: "string \<Rightarrow> real option"

section \<open>Strings\<close>

definition digit_char :: "nat \<Rightarrow> char" where
  "digit_char d = ''0123456789'' ! d"

fun str_nat :: "nat \<Rightarrow> string" where
  "str_nat n = (if n < 10 then [digit_char n] else str_nat (n div 10) @ [digit_char (n mod 10)])"

declare str_nat.simps [simp del]

definition str_int :: "int \<Rightarrow> string" where
  "str_int i = (if i < 0 then CHR ''-'' # str_nat (nat (- i)) else str_nat (nat i))"

text \<open>\<open>sep.join(xs)\<close>\<close>

fun join :: "string \<Rightarrow> string list \<Rightarrow> string" where
  "join sep [] = []"
| "join sep [x] = x"
| "join sep (x # y # ys) = x @ sep @ join sep (y # ys)"

text \<open>\<open>s.startswith(p)\<close>, \<open>p in s\<close> on strings, and \<open>s.split(sep)[0]\<close>.\<close>

fun starts_with :: "string \<Rightarrow> string \<Rightarrow> bool" where
  "starts_with s [] = True"
| "starts_with [] (p # ps) = False"
| "starts_with (c # cs) (p # ps) = (c = p \<and> starts_with cs ps)"

fun contains :: "string \<Rightarrow> string \<Rightarrow> bool" where
  "contains [] p = (p = [])"
| "contains (c # cs) p = (starts_with (c # cs) p \<or> contains cs p)"

fun split_head :: "string \<Rightarrow> string \<Rightarrow> string" where
  "split_head sep [] = []"
| "split_head sep (c # cs) = (if starts_with (c # cs) sep then [] else c # split_head sep cs)"

text \<open>\<open>msg.replace('\n', ' ')\<close>\<close>

definition replace_nl :: "string \<Rightarrow> string" where
  "replace_nl msg = map (\<lambda>c. if c = CHR 0x0A then CHR '' '' else c) msg"

section \<open>Mailer and Messenger\<close>

definition send_mail :: "config \<Rightarrow> string \<Rightarrow> event list" where
  "send_mail cfg msg = (if mail_recip cfg \<noteq> [] then [Mail msg] else [])"

definition mailer_info :: "config \<Rightarrow> string \<Rightarrow> event list" where
  "mailer_info cfg msg = (if mail_level cfg \<in> set [''INFO''] then send_mail cfg msg else [])"

definition mailer_warning :: "config \<Rightarrow> string \<Rightarrow> event list" where
  "mailer_warning cfg msg =
     (if mail_level cfg \<in> set [''INFO'', ''WARNING''] then send_mail cfg msg else [])"

definition mailer_error :: "config \<Rightarrow> string \<Rightarrow> event list" where
  "mailer_error cfg msg =
     (if mail_level cfg \<in> set [''INFO'', ''WARNING'', ''ERROR''] then send_mail cfg msg else [])"

definition messenger_debug :: "config \<Rightarrow> string \<Rightarrow> unit io" where
  "messenger_debug cfg msg = emit [Log DEBUG (replace_nl msg)]"

definition messenger_info :: "config \<Rightarrow> string \<Rightarrow> unit io" where
  "messenger_info cfg msg = emit (Log INFO (replace_nl msg) # mailer_info cfg msg)"

definition messenger_warning :: "config \<Rightarrow> string \<Rightarrow> unit io" where
  "messenger_warning cfg msg = emit (Log WARNING (replace_nl msg) # mailer_warning cfg msg)"

definition messenger_error :: "config \<Rightarrow> string \<Rightarrow> unit io" where
  "messenger_error cfg msg = emit (Log ERROR (replace_nl msg) # mailer_error cfg msg)"

section \<open>Building filters\<close>

text \<open>\<open>probe.video[0]\<close> used as a dictionary: IndexError on an empty list, TypeError on
  the \<open>None\<close> entry of a failed probe.\<close>

definition video0 :: "media_probe \<Rightarrow> py_error + vstream" where
  "video0 probe =
     (case video probe of
        [] \<Rightarrow> Inl IndexError
      | None # _ \<Rightarrow> Inl TypeError
      | Some v # _ \<Rightarrow> Inr v)"

text \<open>\<open>math.isclose(a, b, abs_tol=t)\<close> with its default \<open>rel_tol=1e-09\<close>.\<close>

definition isclose :: "real \<Rightarrow> real \<Rightarrow> real \<Rightarrow> bool" where
  "isclose a b abs_tol =
     (a = b \<or> \<bar>b - a\<bar> \<le> \<bar>b / 10 ^ 9\<bar> \<or> \<bar>b - a\<bar> \<le> \<bar>a / 10 ^ 9\<bar> \<or> \<bar>b - a\<bar> \<le> abs_tol)"

definition deinterlace_filter :: "media_probe \<Rightarrow> string list io" where
  "deinterlace_filter probe =
     bind (lift (video0 probe)) (\<lambda>v.
       ret (case field_order v of
              Some fo \<Rightarrow> if fo \<noteq> ''progressive'' then [''yadif=0:-1:0''] else []
            | None \<Rightarrow> []))"

text \<open>The filter strings of \<open>pad_filter\<close> and \<open>scale_filter\<close>.\<close>

definition pillarbox :: "config \<Rightarrow> string" where
  "pillarbox cfg = ''pad=ih*'' @ str_int (pre_comp_w cfg) @ ''/'' @ str_int (pre_comp_h cfg)
                     @ ''/sar:ih:(ow-iw)/2:(oh-ih)/2''"

definition letterbox :: "config \<Rightarrow> string" where
  "letterbox cfg = ''pad=iw:iw*'' @ str_int (pre_comp_h cfg) @ ''/'' @ str_int (pre_comp_w cfg)
                     @ ''/sar:(ow-iw)/2:(oh-ih)/2''"

definition setdar :: "world \<Rightarrow> config \<Rightarrow> string" where
  "setdar w cfg = ''setdar=dar='' @ str_num w (pre_comp_aspect cfg)"

definition pad_filter :: "config \<Rightarrow> media_probe \<Rightarrow> string list io" where
  "pad_filter cfg probe =
     bind (lift (video0 probe)) (\<lambda>v.
       ret (if \<not> isclose (aspect v) (pre_comp_aspect cfg) (3 / 100) then
              if aspect v < pre_comp_aspect cfg then [pillarbox cfg]
              else if aspect v > pre_comp_aspect cfg then [letterbox cfg]
              else []
            else []))"

definition fps_filter :: "config \<Rightarrow> media_probe \<Rightarrow> string list io" where
  "fps_filter cfg probe =
     bind (lift (video0 probe)) (\<lambda>v.
       ret (if fps v \<noteq> of_int (pre_comp_fps cfg)
            then [''framerate=fps='' @ str_int (pre_comp_fps cfg)] else []))"

definition scale_filter :: "world \<Rightarrow> config \<Rightarrow> media_probe \<Rightarrow> string list io" where
  "scale_filter w cfg probe =
     bind (lift (video0 probe)) (\<lambda>v.
       ret ((if width v \<noteq> pre_comp_w cfg \<or> height v \<noteq> pre_comp_h cfg
             then [''scale='' @ str_int (pre_comp_w cfg) @ '':'' @ str_int (pre_comp_h cfg)]
             else [])
            @ (if \<not> isclose (aspect v) (pre_comp_aspect cfg) (3 / 100)
               then [setdar w cfg] else [])))"

definition fade_filter :: "world \<Rightarrow> real \<Rightarrow> real \<Rightarrow> real \<Rightarrow> string \<Rightarrow> string list" where
  "fade_filter w duration seek out track =
     (if seek > 0 then [track @ ''fade=in:st=0:d=0.5''] else [])
     @ (if out \<noteq> duration
        then [track @ ''fade=out:st='' @ str_num w (out - seek - 1) @ '':d=1.0''] else [])"

definition overlay_filter :: "world \<Rightarrow> config \<Rightarrow> real \<Rightarrow> bool \<Rightarrow> bool \<Rightarrow> bool \<Rightarrow> string" where
  "overlay_filter w cfg duration ad ad_last ad_next =
     (if pre_comp_add_logo cfg \<and> isfile w (pre_comp_logo cfg) \<and> \<not> ad then
        let opacity = ''format=rgba,colorchannelmixer=aa='' @ pre_comp_opacity cfg;
            loop = ''loop=loop='' @ str_num w (duration * of_int (pre_comp_fps cfg))
                     @ '':size=1:start=0'';
            logo_chain =
              [''movie='' @ pre_comp_logo cfg @ '','' @ loop @ '','' @ opacity]
              @ (if ad_last then [''fade=in:st=0:d=1.0:alpha=1''] else [])
              @ (if ad_next
                 then [''fade=out:st='' @ str_num w (duration - 1) @ '':d=1.0:alpha=1'']
                 else [])
        in join '','' logo_chain @ ''[l];[v][l]'' @ pre_comp_logo_filter cfg @ ''[logo]''
      else ''[v]null[logo]'')"

definition add_audio :: "world \<Rightarrow> config \<Rightarrow> media_probe \<Rightarrow> real \<Rightarrow> string list io" where
  "add_audio w cfg probe duration =
     (if audio probe = [] then
        bind (messenger_warning cfg (''Clip \"'' @ probe_src probe @ ''\" has no audio!''))
          (\<lambda>_. ret [''aevalsrc=0:channel_layout=2:duration='' @ str_num w duration
                       @ '':sample_rate=48000''])
      else ret [])"

text \<open>\<open>int(192000 / fps)\<close>: float division, then truncation towards zero.\<close>

definition a_samples :: "config \<Rightarrow> py_error + int" where
  "a_samples cfg =
     (if pre_comp_fps cfg = 0 then Inl ZeroDivisionError
      else Inr (if pre_comp_fps cfg > 0 then 192000 div pre_comp_fps cfg
                else - (192000 div (- pre_comp_fps cfg))))"

definition add_loudnorm :: "world \<Rightarrow> config \<Rightarrow> media_probe \<Rightarrow> string list io" where
  "add_loudnorm w cfg probe =
     bind (lift (a_samples cfg)) (\<lambda>n.
       ret (if audio probe \<noteq> [] \<and> pre_comp_add_loudnorm cfg then
              [''loudnorm=I='' @ str_num w (pre_comp_loud_i cfg)
                 @ '':TP='' @ str_num w (pre_comp_loud_tp cfg)
                 @ '':LRA='' @ str_num w (pre_comp_loud_lra cfg)
                 @ '',asetnsamples=n='' @ str_int n]
            else []))"

definition extend_audio :: "world \<Rightarrow> media_probe \<Rightarrow> real \<Rightarrow> string list io" where
  "extend_audio w probe duration =
     (case audio probe of
        [] \<Rightarrow> ret []
      | None # _ \<Rightarrow> raise TypeError
      | Some a # _ \<Rightarrow>
          ret (case a_duration a of
                 Some d \<Rightarrow> if duration > d + 3 / 10
                           then [''apad=whole_dur='' @ str_num w duration] else []
               | None \<Rightarrow> []))"

definition extend_video :: "world \<Rightarrow> media_probe \<Rightarrow> real \<Rightarrow> real \<Rightarrow> string list io" where
  "extend_video w probe duration target_duration =
     bind (lift (video0 probe)) (\<lambda>v.
       ret (case v_duration v of
              Some d \<Rightarrow> if target_duration < duration \<and> duration > d + 3 / 10
                        then [''tpad=stop_mode=add:stop_duration='' @ str_num w (duration - d)]
                        else []
            | None \<Rightarrow> []))"

text \<open>The two chains of \<open>build_filtergraph\<close> for a clip that is not a dummy.\<close>

definition video_chain_of ::
  "world \<Rightarrow> config \<Rightarrow> real \<Rightarrow> real \<Rightarrow> real \<Rightarrow> media_probe \<Rightarrow> string list io" where
  "video_chain_of w cfg duration seek out probe =
     bind (deinterlace_filter probe) (\<lambda>c1.
     bind (pad_filter cfg probe) (\<lambda>c2.
     bind (fps_filter cfg probe) (\<lambda>c3.
     bind (scale_filter w cfg probe) (\<lambda>c4.
     bind (extend_video w probe duration (out - seek)) (\<lambda>c5.
       ret (c1 @ c2 @ c3 @ c4 @ c5 @ fade_filter w duration seek out []))))))"

definition audio_chain_of ::
  "world \<Rightarrow> config \<Rightarrow> real \<Rightarrow> real \<Rightarrow> real \<Rightarrow> media_probe \<Rightarrow> string list io" where
  "audio_chain_of w cfg duration seek out probe =
     bind (add_audio w cfg probe (out - seek)) (\<lambda>a1.
       if a1 = [] then
         bind (add_loudnorm w cfg probe) (\<lambda>a2.
         bind (extend_audio w probe (out - seek)) (\<lambda>a3.
           ret ([''[0:a]anull''] @ a2 @ a3 @ fade_filter w duration seek out ''a'')))
       else ret a1)"

definition build_filtergraph ::
  "world \<Rightarrow> config \<Rightarrow> real \<Rightarrow> real \<Rightarrow> real \<Rightarrow> bool \<Rightarrow> bool \<Rightarrow> bool \<Rightarrow> bool \<Rightarrow> media_probe
     \<Rightarrow> string list io" where
  "build_filtergraph w cfg duration seek0 out ad ad_last ad_next dummy probe =
     (let video_map = [''-map'', ''[logo]''];
          seek = (if out > duration then 0 else seek0)
      in
      bind (if \<not> dummy
            then bind (video_chain_of w cfg duration seek out probe) (\<lambda>vc.
                 bind (audio_chain_of w cfg duration seek out probe) (\<lambda>ac. ret (vc, ac)))
            else ret ([], [])) (\<lambda>(video_chain, audio_chain).
        let video_filter0 = (if video_chain \<noteq> [] then join '','' video_chain @ ''[v]''
                             else ''null[v]'');
            logo_filter = overlay_filter w cfg (out - seek) ad ad_last ad_next;
            video_filter = [''-filter_complex'', ''[0:v]'' @ video_filter0 @ '';'' @ logo_filter];
            audio_filter = (if audio_chain \<noteq> []
                            then [''-filter_complex'', join '','' audio_chain @ ''[a]'']
                            else []);
            audio_map = (if audio_chain \<noteq> [] then [''-map'', ''[a]''] else [''-map'', ''0:a''])
        in
        if dummy then ret (video_filter @ video_map @ [''-map'', ''1:a''])
        else ret (video_filter @ audio_filter @ video_map @ audio_map)))"

section \<open>Clip inputs\<close>

text \<open>\<open>'{}'.format(src)\<close> for a source that may be \<open>None\<close>.\<close>

definition fmt_src :: "string option \<Rightarrow> string" where
  "fmt_src src = (case src of None \<Rightarrow> ''None'' | Some s \<Rightarrow> s)"

definition seek_in :: "world \<Rightarrow> real \<Rightarrow> string list" where
  "seek_in w seek = (if seek > 0 then [''-ss'', str_num w seek] else [])"

definition set_length :: "world \<Rightarrow> real \<Rightarrow> real \<Rightarrow> real \<Rightarrow> string list" where
  "set_length w duration seek out =
     (if out < duration then [''-t'', str_num w (out - seek)] else [])"

definition loop_input :: "world \<Rightarrow> config \<Rightarrow> string \<Rightarrow> real \<Rightarrow> real \<Rightarrow> string list io" where
  "loop_input w cfg source src_duration target_duration =
     (if src_duration = 0 then raise ZeroDivisionError
      else
        let loop_count = \<lceil>target_duration / src_duration\<rceil> in
        bind (messenger_info cfg
                (''Loop \"'' @ source @ ''\" '' @ str_int loop_count
                   @ '' times, total duration: '' @ fmt_2f w target_duration))
          (\<lambda>_. ret [''-stream_loop'', str_int loop_count, ''-i'', source,
                     ''-t'', str_num w target_duration]))"

definition gen_dummy :: "world \<Rightarrow> config \<Rightarrow> real \<Rightarrow> string list" where
  "gen_dummy w cfg duration =
     [''-f'', ''lavfi'', ''-i'',
      ''color=c=#121212:s='' @ str_int (pre_comp_w cfg) @ ''x'' @ str_int (pre_comp_h cfg)
        @ '':d='' @ str_num w duration @ '':r='' @ str_int (pre_comp_fps cfg)
        @ '',format=pix_fmts=yuv420p'',
      ''-f'', ''lavfi'', ''-i'',
      ''anoisesrc=d='' @ str_num w duration @ '':c=pink:r=48000:a=0.05'']"

text \<open>\<open>src and src.split('://')[0] in _pre_comp.protocols\<close>: the configured protocols
  are one string, so \<open>in\<close> is the substring test.\<close>

definition is_live :: "config \<Rightarrow> string option \<Rightarrow> bool" where
  "is_live cfg src =
     (case src of
        None \<Rightarrow> False
      | Some s \<Rightarrow> s \<noteq> [] \<and> contains (pre_comp_protocols cfg) (split_head ''://'' s))"

definition is_local :: "world \<Rightarrow> string option \<Rightarrow> bool" where
  "is_local w src = (case src of None \<Rightarrow> False | Some s \<Rightarrow> s \<noteq> [] \<and> isfile w s)"

definition src_or_dummy ::
  "world \<Rightarrow> config \<Rightarrow> string option \<Rightarrow> real \<Rightarrow> real \<Rightarrow> real \<Rightarrow> string list io" where
  "src_or_dummy w cfg src dur seek out =
     (if is_live cfg src then
        bind (if seek > 0
              then messenger_warning cfg
                     (''Seek in live source \"'' @ fmt_src src @ ''\" not supported!'')
              else ret ())
          (\<lambda>_. ret ([''-i'', fmt_src src] @ set_length w dur seek out))
      else if is_local w src then
        if out > dur then
          if seek > 0 then
            bind (messenger_warning cfg
                    (''Seek in looped source \"'' @ fmt_src src @ ''\" not supported!''))
              (\<lambda>_. ret ([''-i'', fmt_src src] @ set_length w dur seek (out - seek)))
          else loop_input w cfg (fmt_src src) dur out
        else ret (seek_in w seek @ [''-i'', fmt_src src] @ set_length w dur seek out)
      else
        bind (messenger_error cfg (''Clip/URL not exist:'' @ [CHR 0x0A] @ fmt_src src))
          (\<lambda>_. ret (gen_dummy w cfg (out - seek))))"

text \<open>\<open>handle_list_end\<close> returns \<open>(src_cmd, seek, new_out, new_playlist)\<close>; a \<open>src_cmd\<close> of
  \<open>None\<close> is \<open>None\<close> here.\<close>

definition handle_list_end ::
  "world \<Rightarrow> config \<Rightarrow> real \<Rightarrow> real \<Rightarrow> string option \<Rightarrow> real \<Rightarrow> real \<Rightarrow> real \<Rightarrow> real
     \<Rightarrow> (string list option \<times> real \<times> real \<times> bool) io" where
  "handle_list_end w cfg time_delta ref_time src begin dur seek out =
     (let new_length = ref_time - (begin + time_delta);
          new_out0 = (if seek > 0 then seek + new_length else new_length);
          new_out = (if new_out0 > dur then dur else new_out0)
      in
      bind (if new_out0 > dur then ret ()
            else messenger_info cfg
                   (''We are over time, new length is: '' @ fmt_2f w new_length)) (\<lambda>_.
        if new_length > 3 then
          bind (src_or_dummy w cfg src dur seek new_out) (\<lambda>src_cmd.
            ret (Some src_cmd, seek, new_out, True))
        else if new_length > 1 then
          ret (Some (gen_dummy w cfg new_length), seek, new_out, True)
        else if new_length > 0 then
          bind (messenger_info cfg
                  (''Last clip less then a second long, skip:'' @ [CHR 0x0A] @ fmt_src src))
            (\<lambda>_. ret (None, seek, new_out, True))
        else
          let missing_secs = \<bar>new_length - dur\<bar> in
          bind (src_or_dummy w cfg src dur seek out) (\<lambda>src_cmd.
          bind (messenger_error cfg
                  (''Playlist is not long enough:'' @ [CHR 0x0A] @ fmt_2f w missing_secs
                     @ '' seconds needed.'')) (\<lambda>_.
            ret (Some src_cmd, seek, out, False)))))"

section \<open>Probing\<close>

text \<open>\<open>MediaProbe.load\<close>: the probe of a file, or the record of a failed probe together
  with the error message.\<close>

definition media_probe_load :: "world \<Rightarrow> config \<Rightarrow> string \<Rightarrow> media_probe io" where
  "media_probe_load w cfg file =
     (case ffprobe w file of
        None \<Rightarrow>
          bind (messenger_error cfg (''MediaProbe error in: '' @ file))
            (\<lambda>_. ret \<lparr>probe_src = file, format_duration = None,
                         audio = [None], video = [None]\<rparr>)
      | Some p \<Rightarrow> ret (p\<lparr>probe_src := file\<rparr>))"

text \<open>\<open>float(self.probe.format['duration'])\<close>\<close>

definition probe_format_duration :: "media_probe \<Rightarrow> py_error + real" where
  "probe_format_duration p =
     (case format_duration p of
        None \<Rightarrow> Inl TypeError
      | Some None \<Rightarrow> Inl KeyError
      | Some (Some d) \<Rightarrow> Inr d)"

section \<open>Folder mode\<close>

record media_store =
  store :: "string list"
  folder :: string

definition sort_store :: "media_store \<Rightarrow> media_store" where
  "sort_store ms = ms\<lparr>store := sort (store ms)\<rparr>"

definition fill :: "world \<Rightarrow> config \<Rightarrow> media_store \<Rightarrow> media_store" where
  "fill w cfg ms =
     sort_store (ms\<lparr>store := store ms
                    @ concat (map (glob_rec w (folder ms)) (storage_extensions cfg))\<rparr>)"

text \<open>\<open>MediaStore.__init__\<close>, for the folder given on the command line or configured.\<close>

definition media_store_init :: "world \<Rightarrow> config \<Rightarrow> string \<Rightarrow> media_store" where
  "media_store_init w cfg dir = fill w cfg \<lparr>store = [], folder = dir\<rparr>"

text \<open>\<open>random.choice(store)\<close>, for a random number \<open>r\<close>.\<close>

definition random_choice :: "string list \<Rightarrow> nat \<Rightarrow> py_error + string" where
  "random_choice xs r = (if xs = [] then Inl IndexError else Inr (xs ! (r mod length xs)))"

text \<open>What both modes of \<open>GetSource.next\<close> do with the chosen clip: probe it, build the
  default filter graph, and yield the argument vector.\<close>

definition yield_clip :: "world \<Rightarrow> config \<Rightarrow> string \<Rightarrow> unit io" where
  "yield_clip w cfg clip =
     bind (media_probe_load w cfg clip) (\<lambda>p.
     bind (lift (probe_format_duration p)) (\<lambda>d.
     bind (build_filtergraph w cfg d 0 d False False False False p) (\<lambda>filtergraph.
       emit [Yield ([''-i'', clip] @ filtergraph)])))"

text \<open>The shuffle branch of \<open>GetSource.next\<close>, run for a list of random numbers, one for
  each turn of the \<open>while True\<close> loop, on the list \<open>last_played\<close>. The yielded vectors
  are events; the value is \<open>last_played\<close> after the last turn.\<close>

fun next_shuffle ::
  "world \<Rightarrow> config \<Rightarrow> string list \<Rightarrow> string list \<Rightarrow> nat list \<Rightarrow> string list io" where
  "next_shuffle w cfg media last_played [] = ret last_played"
| "next_shuffle w cfg media last_played (r # rs) =
     bind (lift (random_choice media r)) (\<lambda>clip.
       let last_played1 =
             (if real (length last_played) > real (length media) / 2
              then tl last_played else last_played)
       in
       if clip \<notin> set last_played1 then
         bind (yield_clip w cfg clip) (\<lambda>_.
           next_shuffle w cfg media (last_played1 @ [clip]) rs)
       else next_shuffle w cfg media last_played1 rs)"

text \<open>The vectors a computation yielded, and the file \<open>main\<close> reads off a vector as
  \<open>current_file\<close>; indexing a vector that is too short raises IndexError.\<close>

fun yielded :: "event list \<Rightarrow> string list list" where
  "yielded [] = []"
| "yielded (Yield v # evs) = v # yielded evs"
| "yielded (_ # evs) = yielded evs"

definition current_file :: "string list \<Rightarrow> py_error + string" where
  "current_file src_cmd =
     (case src_cmd of
        [] \<Rightarrow> Inl IndexError
      | a # rest \<Rightarrow>
          if a = ''-i'' then (case rest of [] \<Rightarrow> Inl IndexError | b # _ \<Rightarrow> Inr b)
          else (case rest of _ # _ # d # _ \<Rightarrow> Inr d | _ \<Rightarrow> Inl IndexError))"

text \<open>No element of \<open>xs\<close> occurs again among the \<open>k\<close> elements after it.\<close>

fun spaced :: "nat \<Rightarrow> 'a list \<Rightarrow> bool" where
  "spaced k [] = True"
| "spaced k (x # xs) = (x \<notin> set (take k xs) \<and> spaced k xs)"

section \<open>Playlist mode\<close>

text \<open>A JSON value of a playlist entry, a playlist entry, and the playlist document.\<close>

datatype jval = JNum real | JStr string | JNull

record clip_node =
  node_source :: string
  node_in :: jval
  node_out :: jval
  node_duration :: jval
  node_category :: "string option"

record playlist_doc =
  doc_date :: "string option"
  program :: "clip_node list"

text \<open>The fields of \<open>GetSourceIter\<close>. \<open>begin\<close> and \<open>next_playlist\<close> are attributes that
  \<open>__init__\<close> does not set: \<open>None\<close> is the unset attribute.\<close>

record source_iter =
  self_init_time :: real
  self_last_time :: real
  self_total_playtime :: real
  self_last_mod_time :: real
  self_json_file :: "string option"
  self_clip_nodes :: "playlist_doc option"
  self_src_cmd :: "string list option"
  self_probe :: media_probe
  self_filtergraph :: "string list"
  self_first :: bool
  self_last :: bool
  self_list_date :: string
  self_is_dummy :: bool
  self_last_error :: string
  self_timestamp :: real
  self_src :: "string option"
  self_seek :: real
  self_out :: real
  self_duration :: real
  self_ad :: bool
  self_ad_last :: bool
  self_ad_next :: bool
  self_begin :: "real option"
  self_next_playlist :: "bool option"

text \<open>\<open>GetSourceIter.__init__\<close>, at the time of day \<open>now\<close>, the stamp \<open>stamp\<close> and the
  playlist date \<open>list_date\<close> that \<open>get_date(True)\<close> gives. The probe object is not loaded
  yet.\<close>

definition source_iter_init :: "config \<Rightarrow> real \<Rightarrow> real \<Rightarrow> string \<Rightarrow> source_iter" where
  "source_iter_init cfg now stamp list_date =
     (let total_playtime =
            (case playlist_length cfg of
               None \<Rightarrow> 86400
             | Some l \<Rightarrow> if l \<noteq> 0 then l else 86400)
      in \<lparr>self_init_time = playlist_start cfg,
          self_last_time = (if now < playlist_start cfg then now + total_playtime else now),
          self_total_playtime = total_playtime,
          self_last_mod_time = 0,
          self_json_file = None,
          self_clip_nodes = None,
          self_src_cmd = None,
          self_probe = \<lparr>probe_src = [], format_duration = None, audio = [], video = []\<rparr>,
          self_filtergraph = [],
          self_first = True,
          self_last = False,
          self_list_date = list_date,
          self_is_dummy = False,
          self_last_error = [],
          self_timestamp = stamp,
          self_src = None,
          self_seek = 0,
          self_out = 20,
          self_duration = 20,
          self_ad = False,
          self_ad_last = False,
          self_ad_next = False,
          self_begin = None,
          self_next_playlist = None\<rparr>)"

text \<open>The category of the entry at a position of the program: IndexError beyond the
  list, KeyError when the entry has no \<open>category\<close>.\<close>

definition category_at :: "playlist_doc option \<Rightarrow> nat \<Rightarrow> py_error + string" where
  "category_at doc i =
     (case doc of
        None \<Rightarrow> Inl TypeError
      | Some d \<Rightarrow>
          if i < length (program d) then
            (case node_category (program d ! i) of None \<Rightarrow> Inl KeyError | Some c \<Rightarrow> Inr c)
          else Inl IndexError)"

definition program_length :: "playlist_doc option \<Rightarrow> py_error + nat" where
  "program_length doc = (case doc of None \<Rightarrow> Inl TypeError | Some d \<Rightarrow> Inr (length (program d)))"

definition get_category :: "source_iter \<Rightarrow> nat \<Rightarrow> clip_node \<Rightarrow> py_error + source_iter" where
  "get_category self index node =
     (case node_category node of
        None \<Rightarrow> Inr self
      | Some category \<Rightarrow>
          (case (if index \<ge> 1 then category_at (self_clip_nodes self) (index - 1)
                 else Inr ''noad'') of
             Inl e \<Rightarrow> Inl e
           | Inr last_category \<Rightarrow>
               (case program_length (self_clip_nodes self) of
                  Inl e \<Rightarrow> Inl e
                | Inr n \<Rightarrow>
                    (case (if index + 2 \<le> n then category_at (self_clip_nodes self) (index + 1)
                           else Inr ''noad'') of
                       Inl e \<Rightarrow> Inl e
                     | Inr next_category \<Rightarrow>
                         Inr (self\<lparr>self_ad := (category = ''advertisement''),
                                   self_ad_last := (last_category = ''advertisement''),
                                   self_ad_next := (next_category = ''advertisement'')\<rparr>)))))"

definition set_filtergraph :: "world \<Rightarrow> config \<Rightarrow> source_iter \<Rightarrow> source_iter io" where
  "set_filtergraph w cfg self =
     bind (build_filtergraph w cfg (self_duration self) (self_seek self) (self_out self)
             (self_ad self) (self_ad_last self) (self_ad_next self) (self_is_dummy self)
             (self_probe self))
       (\<lambda>fg. ret (self\<lparr>self_filtergraph := fg\<rparr>))"

text \<open>\<open>check_for_next_playlist\<close>; \<open>today\<close> is what \<open>get_date(False)\<close> gives.\<close>

definition check_for_next_playlist :: "config \<Rightarrow> string \<Rightarrow> source_iter \<Rightarrow> py_error + source_iter" where
  "check_for_next_playlist cfg today self =
     (case self_next_playlist self of
        None \<Rightarrow> Inl AttributeError
      | Some next_playlist \<Rightarrow>
          if \<not> next_playlist then
            (case self_begin self of
               None \<Rightarrow> Inl AttributeError
             | Some begin \<Rightarrow> Inr (self\<lparr>self_last_time := begin\<rparr>))
          else if playlist_length cfg \<noteq> Some 86400 then
            Inr (self\<lparr>self_last_time := 86400 * 2\<rparr>)
          else
            Inr (self\<lparr>self_list_date := today,
                      self_last_mod_time := 0,
                      self_last_time := playlist_start cfg - 1\<rparr>))"

definition gen_filler :: "world \<Rightarrow> config \<Rightarrow> real \<Rightarrow> string list io" where
  "gen_filler w cfg duration =
     (if storage_filler cfg = [] then
        bind (messenger_warning cfg ''No filler is set!'') (\<lambda>_. ret (gen_dummy w cfg duration))
      else
        (case ffprobe_duration w (storage_filler cfg) of
           Some file_duration \<Rightarrow>
             if file_duration \<noteq> 0 then
               if file_duration > duration then
                 bind (messenger_info cfg
                         (''Generate filler with '' @ fmt_2f w duration @ '' seconds''))
                   (\<lambda>_. ret ([''-i'', storage_filler cfg]
                              @ set_length w file_duration 0 duration))
               else loop_input w cfg (storage_filler cfg) file_duration duration
             else
               bind (messenger_error cfg ''Can't get filler length, generate dummy!'')
                 (\<lambda>_. ret (gen_dummy w cfg duration))
         | None \<Rightarrow>
             bind (messenger_error cfg ''Can't get filler length, generate dummy!'')
               (\<lambda>_. ret (gen_dummy w cfg duration))))"

text \<open>\<open>eof_handling\<close>, at the time of day \<open>now\<close> and the date \<open>today\<close>; \<open>stamp\<close> is the
  stamp read for the test of the last notification, \<open>stamp'\<close> the one stored after it.
  The function is given in its three parts: the assignments up to \<open>self.last_time = 0.0\<close>,
  the choice of the filler or dummy input, and, after \<open>set_filtergraph\<close>, the
  notification.\<close>

definition eof_reset :: "config \<Rightarrow> real \<Rightarrow> string \<Rightarrow> source_iter \<Rightarrow> source_iter" where
  "eof_reset cfg now today self0 =
     (let self1 = self0\<lparr>self_seek := 0, self_ad := False\<rparr>;
          ref_time = self_total_playtime self1 + playlist_start cfg;
          current_time = (if now < playlist_start cfg then now + self_total_playtime self1
                          else now);
          time_diff = self_out self1 - self_seek self1 + current_time;
          new_len = self_out self1 - self_seek self1 - (time_diff - ref_time)
      in self1\<lparr>self_out := \<bar>new_len\<bar>,
                self_duration := \<bar>new_len\<bar>,
                self_list_date := today,
                self_last_mod_time := 0,
                self_first := False,
                self_last_time := 0\<rparr>)"

definition eof_source :: "world \<Rightarrow> config \<Rightarrow> bool \<Rightarrow> source_iter \<Rightarrow> source_iter io" where
  "eof_source w cfg filler self =
     (if filler \<and> self_out self > 2 then
        bind (gen_filler w cfg (self_duration self)) (\<lambda>cmd.
          if storage_filler cfg \<noteq> [] \<and> isfile w (storage_filler cfg) then
            bind (media_probe_load w cfg (storage_filler cfg)) (\<lambda>p.
              ret (self\<lparr>self_src_cmd := Some cmd,
                        self_is_dummy := False,
                        self_duration := self_duration self + 1,
                        self_probe := p\<rparr>))
          else ret (self\<lparr>self_src_cmd := Some cmd, self_is_dummy := True\<rparr>))
      else ret (self\<lparr>self_src_cmd := Some (gen_dummy w cfg (self_duration self)),
                     self_is_dummy := True\<rparr>))"

definition eof_notify ::
  "config \<Rightarrow> real \<Rightarrow> real \<Rightarrow> string \<Rightarrow> source_iter \<Rightarrow> source_iter io" where
  "eof_notify cfg stamp stamp' message self =
     bind (if stamp - self_timestamp self > 3600 \<and> message \<noteq> self_last_error self then
             bind (messenger_error cfg
                     (message @ [CHR 0x0A] @ fmt_src (self_json_file self)))
               (\<lambda>_. ret (self\<lparr>self_last_error := message, self_timestamp := stamp'\<rparr>))
           else ret self) (\<lambda>self1.
     bind (messenger_error cfg (message @ '' '' @ fmt_src (self_json_file self1))) (\<lambda>_.
       ret (self1\<lparr>self_last := False\<rparr>)))"

definition eof_handling ::
  "world \<Rightarrow> config \<Rightarrow> real \<Rightarrow> string \<Rightarrow> real \<Rightarrow> real \<Rightarrow> string \<Rightarrow> bool \<Rightarrow> source_iter
     \<Rightarrow> source_iter io" where
  "eof_handling w cfg now today stamp stamp' message filler self =
     bind (eof_source w cfg filler (eof_reset cfg now today self)) (\<lambda>self1.
     bind (set_filtergraph w cfg self1) (\<lambda>self2.
       eof_notify cfg stamp stamp' message self2))"

section \<open>An example installation\<close>

text \<open>A world where three clips exist and floats without fractional part are rendered the
  way Python renders them, the values of the shipped configuration file, and the probe of
  a clip that already has the target format.\<close>

definition str_whole :: "real \<Rightarrow> string" where
  "str_whole x = str_int \<lfloor>x\<rfloor> @ ''.0''"

definition fmt_whole :: "real \<Rightarrow> string" where
  "fmt_whole x = str_int \<lfloor>x\<rfloor> @ ''.00''"

definition probe0 :: media_probe where
  "probe0 = \<lparr>probe_src = ''/media/clip.mp4'', format_duration = Some (Some 30),
     audio = [Some \<lparr>a_duration = Some 30\<rparr>],
     video = [Some \<lparr>width = 1024, height = 576, aspect = 1778 / 1000, fps = 25,
                     field_order = Some ''progressive'', v_duration = Some 30\<rparr>]\<rparr>"

definition media0 :: "string list" where
  "media0 = [''/media/clip.mp4'', ''/media/b.mp4'', ''/media/a.mp4'']"

definition world0 :: world where
  "world0 = \<lparr>isfile = (\<lambda>p. p \<in> set media0), str_num = str_whole, fmt_2f = fmt_whole,
     glob_rec = (\<lambda>folder ext. if ext = ''*.mp4'' then media0 else []),
     ffprobe = (\<lambda>p. if p \<in> set media0 then Some probe0 else None),
     ffprobe_duration = (\<lambda>p. if p \<in> set media0 then Some 30 else None)\<rparr>"

definition config0 :: config where
  "config0 = \<lparr>general_stop = False, general_threshold = 11,
     mail_recip = ''ops@example.org'', mail_level = ''ERROR'',
     pre_comp_w = 1024, pre_comp_h = 576, pre_comp_aspect = 1778 / 1000, pre_comp_fps = 25,
     pre_comp_add_logo = True, pre_comp_logo = ''logo.png'', pre_comp_opacity = ''0.7'',
     pre_comp_logo_filter = ''overlay=W-w-12:12'', pre_comp_add_loudnorm = False,
     pre_comp_loud_i = -18, pre_comp_loud_tp = -2, pre_comp_loud_lra = 11,
     pre_comp_protocols = ''http,https,ftp,smb,sftp,rtmp,rtsp'',
     playlist_start = 21600, playlist_length = Some 86400,
     storage_filler = [], storage_extensions = [''*.mp4'', ''*.mkv''],
     storage_shuffle = True, stdin_loop = False\<rparr>"

text \<open>Probes of a 4:3 clip and of a 2.35:1 clip, and a probe and a configuration with
  very large aspect values.\<close>

definition probe_narrow :: media_probe where
  "probe_narrow = probe0\<lparr>video := [Some \<lparr>width = 768, height = 576, aspect = 4 / 3, fps = 25,
                     field_order = Some ''progressive'', v_duration = Some 30\<rparr>]\<rparr>"

definition probe_scope :: media_probe where
  "probe_scope = probe0\<lparr>video := [Some \<lparr>width = 1024, height = 436, aspect = 235 / 100,
                     fps = 25, field_order = Some ''progressive'', v_duration = Some 30\<rparr>]\<rparr>"

definition probe_huge :: media_probe where
  "probe_huge = probe0\<lparr>video := [Some \<lparr>width = 1024, height = 576, aspect = 10 ^ 9, fps = 25,
                     field_order = Some ''progressive'', v_duration = Some 30\<rparr>]\<rparr>"

definition config_huge :: config where
  "config_huge = config0\<lparr>pre_comp_aspect := 10 ^ 9 + 1 / 2\<rparr>"

text \<open>The iterator some time after its start, with the playlist path that
  \<open>get_playlist\<close> has set, and a configuration with a playlist of 25 hours.\<close>

definition iter0 :: source_iter where
  "iter0 = (source_iter_init config0 30000 1000 ''2026-11-04'')
             \<lparr>self_json_file := Some ''/playlists/2026/11/2026-11-04.json''\<rparr>"

definition config_long :: config where
  "config_long = config0\<lparr>playlist_length := Some 90000\<rparr>"

text \<open>Playlist entries with and without a category, and a playlist.\<close>

definition node_ad :: clip_node where
  "node_ad = \<lparr>node_source = ''/media/a.mp4'', node_in = JNum 0, node_out = JNum 30,
               node_duration = JNum 30, node_category = Some ''advertisement''\<rparr>"

definition node_film :: clip_node where
  "node_film = \<lparr>node_source = ''/media/b.mp4'', node_in = JNum 0, node_out = JNum 30,
                 node_duration = JNum 30, node_category = Some ''film''\<rparr>"

definition node_plain :: clip_node where
  "node_plain = \<lparr>node_source = ''/media/clip.mp4'', node_in = JNum 0, node_out = JNum 30,
                  node_duration = JNum 30, node_category = None\<rparr>"

definition iter_ads :: source_iter where
  "iter_ads = iter0\<lparr>self_clip_nodes :=
                Some \<lparr>doc_date = Some ''2026-11-04'', program = [node_ad, node_film]\<rparr>\<rparr>"

text \<open>The iterator right after it has notified the message "Playlist not exist:" at the
  stamp 5000.\<close>

definition iter_notified :: source_iter where
  "iter_notified = iter0\<lparr>self_last_error := ''Playlist not exist:'', self_timestamp := 5000\<rparr>"

section \<open>Basic facts\<close>

lemma snd_ret [simp]: "snd (ret x) = Inr x"
  by (simp add: ret_def)

lemma snd_raise [simp]: "snd (raise e) = Inl e"
  by (simp add: raise_def)

lemma snd_lift [simp]: "snd (lift r) = r"
  by (simp add: lift_def)

lemma snd_emit [simp]: "snd (emit evs) = Inr ()"
  by (simp add: emit_def)

lemma snd_bind_Inr:
  "snd (bind m f) = Inr y \<longleftrightarrow> (\<exists>x. snd m = Inr x \<and> snd (f x) = Inr y)"
  by (cases m) (auto simp: bind_def split: sum.splits prod.splits)

lemma snd_bind_emit [simp]: "snd (bind (emit evs) f) = snd (f ())"
  by (simp add: bind_def emit_def split: prod.splits)

lemma str_nat_numeral [simp]:
  "str_nat (numeral k) =
     (if (numeral k :: nat) < 10 then [digit_char (numeral k)]
      else str_nat (numeral k div 10) @ [digit_char (numeral k mod 10)])"
  by (rule str_nat.simps)

lemma str_nat_0 [simp]: "str_nat 0 = ''0''"
  by (subst str_nat.simps) (simp add: digit_char_def)

lemma str_nat_1 [simp]: "str_nat 1 = ''1''"
  by (subst str_nat.simps) (simp add: digit_char_def)

lemma str_nat_Suc_0 [simp]: "str_nat (Suc 0) = ''1''"
  by (subst str_nat.simps) (simp add: digit_char_def)

lemma ends_a_neq:
  "xs @ ''[a]'' \<noteq> ''-filter_complex''" "xs @ ''[a]'' \<noteq> ''-map''"
  "xs @ ''[a]'' \<noteq> ''0:a''" "xs @ ''[a]'' \<noteq> ''1:a''"
proof -
  have l: "last (xs @ ''[a]'') = CHR '']''" by simp
  have "last ''-filter_complex'' \<noteq> CHR '']''" by simp
  with l show "xs @ ''[a]'' \<noteq> ''-filter_complex''" by force
  have "last ''-map'' \<noteq> CHR '']''" by simp
  with l show "xs @ ''[a]'' \<noteq> ''-map''" by force
  have "last ''0:a'' \<noteq> CHR '']''" by simp
  with l show "xs @ ''[a]'' \<noteq> ''0:a''" by force
  have "last ''1:a'' \<noteq> CHR '']''" by simp
  with l show "xs @ ''[a]'' \<noteq> ''1:a''" by force
qed

section \<open>The filter graph\<close>

lemma audio_chain_nonempty:
  "snd (audio_chain_of w cfg duration seek out probe) = Inr ac \<Longrightarrow> ac \<noteq> []"
  by (auto simp: audio_chain_of_def add_audio_def snd_bind_Inr messenger_warning_def
      split: if_splits)

lemma build_filtergraph_example:
  "build_filtergraph world0 config0 30 0 30 False False False False probe0 =
     ([], Inr [''-filter_complex'', ''[0:v]null[v];[v]null[logo]'',
               ''-filter_complex'', ''[0:a]anull[a]'',
               ''-map'', ''[logo]'', ''-map'', ''[a]''])"
  by (simp add: build_filtergraph_def video_chain_of_def audio_chain_of_def
     deinterlace_filter_def pad_filter_def fps_filter_def scale_filter_def extend_video_def
     pillarbox_def letterbox_def setdar_def
     fade_filter_def add_audio_def add_loudnorm_def extend_audio_def overlay_filter_def
     video0_def a_samples_def isclose_def bind_def ret_def lift_def
     world0_def media0_def config0_def probe0_def)

text \<open>
  C1 (as the code has it): every argument vector that \<open>build_filtergraph\<close> returns for a
  clip that is not a dummy contains exactly two \<open>-filter_complex\<close> arguments, one for the
  video chain and one for the audio chain, and exactly two \<open>-map\<close> arguments.
\<close>

theorem build_filtergraph_counts:
  assumes "snd (build_filtergraph w cfg duration seek out ad ad_last ad_next False probe) = Inr v"
  shows "count_list v ''-filter_complex'' = 2 \<and> count_list v ''-map'' = 2"
proof -
  from assms obtain vc ac s where
    ac: "snd (audio_chain_of w cfg duration s out probe) = Inr ac"
    and v: "v = [''-filter_complex'',
                 ''[0:v]'' @ (if vc \<noteq> [] then join '','' vc @ ''[v]'' else ''null[v]'') @ '';''
                   @ overlay_filter w cfg (out - s) ad ad_last ad_next]
              @ (if ac \<noteq> [] then [''-filter_complex'', join '','' ac @ ''[a]''] else [])
              @ [''-map'', ''[logo]'']
              @ (if ac \<noteq> [] then [''-map'', ''[a]''] else [''-map'', ''0:a''])"
    by (auto simp: build_filtergraph_def Let_def snd_bind_Inr)
  from ac have "ac \<noteq> []" by (rule audio_chain_nonempty)
  with v show ?thesis by (simp add: ends_a_neq)
qed

theorem build_filtergraph_counts_witness:
  "snd (build_filtergraph world0 config0 30 0 30 False False False False probe0) =
     Inr [''-filter_complex'', ''[0:v]null[v];[v]null[logo]'',
          ''-filter_complex'', ''[0:a]anull[a]'', ''-map'', ''[logo]'', ''-map'', ''[a]'']
   \<and> count_list [''-filter_complex'', ''[0:v]null[v];[v]null[logo]'',
          ''-filter_complex'', ''[0:a]anull[a]'', ''-map'', ''[logo]'', ''-map'', ''[a]'']
        ''-filter_complex'' = 2
   \<and> count_list [''-filter_complex'', ''[0:v]null[v];[v]null[logo]'',
          ''-filter_complex'', ''[0:a]anull[a]'', ''-map'', ''[logo]'', ''-map'', ''[a]'']
        ''-map'' = 2"
proof -
  have h: "snd (build_filtergraph world0 config0 30 0 30 False False False False probe0) =
     Inr [''-filter_complex'', ''[0:v]null[v];[v]null[logo]'',
          ''-filter_complex'', ''[0:a]anull[a]'', ''-map'', ''[logo]'', ''-map'', ''[a]'']"
    by (simp add: build_filtergraph_example)
  show ?thesis by (rule conjI [OF h build_filtergraph_counts [OF h]])
qed

text \<open>
  C1 as stated, exactly one \<open>-filter_complex\<close>, fails on a probed clip that needs no
  filter at all: the vector carries one for the video and one for the audio chain.
\<close>

theorem build_filtergraph_single_filter_complex_counterexample:
  "snd (build_filtergraph world0 config0 30 0 30 False False False False probe0) =
     Inr [''-filter_complex'', ''[0:v]null[v];[v]null[logo]'',
          ''-filter_complex'', ''[0:a]anull[a]'', ''-map'', ''[logo]'', ''-map'', ''[a]'']
   \<and> count_list [''-filter_complex'', ''[0:v]null[v];[v]null[logo]'',
          ''-filter_complex'', ''[0:a]anull[a]'', ''-map'', ''[logo]'', ''-map'', ''[a]'']
        ''-filter_complex'' \<noteq> 1"
  by (simp add: build_filtergraph_example)

lemma build_filtergraph_dummy_example:
  "build_filtergraph world0 config0 20 0 20 False False False True probe0 =
     ([], Inr [''-filter_complex'', ''[0:v]null[v];[v]null[logo]'',
               ''-map'', ''[logo]'', ''-map'', ''1:a''])"
  by (simp add: build_filtergraph_def overlay_filter_def bind_def ret_def
     world0_def media0_def config0_def)

lemma audio_chain_shape:
  assumes "snd (audio_chain_of w cfg duration seek out probe) = Inr ac"
  shows "(audio probe = [] \<and>
            ac = [''aevalsrc=0:channel_layout=2:duration='' @ str_num w (out - seek)
                    @ '':sample_rate=48000''])
         \<or> (audio probe \<noteq> [] \<and> (\<exists>rest. ac = ''[0:a]anull'' # rest))"
  using assms
  by (auto simp: audio_chain_of_def add_audio_def snd_bind_Inr messenger_warning_def
      split: if_splits)

text \<open>
  C9: whenever \<open>build_filtergraph\<close> returns a vector for a clip that is not a dummy, the
  audio chain is not empty (the generated silent source when the probe has no audio
  stream, a chain starting with \<open>[0:a]anull\<close> otherwise) and the vector ends with the audio
  filter followed by \<open>-map [logo] -map [a]\<close>; no returned vector contains \<open>0:a\<close>; and
  \<open>1:a\<close> is in the returned vector exactly when the clip is a dummy.
\<close>

theorem build_filtergraph_audio_map:
  assumes "snd (build_filtergraph w cfg duration seek out ad ad_last ad_next dummy probe) = Inr v"
  shows "(\<not> dummy \<longrightarrow>
           (\<exists>ac pre. snd (audio_chain_of w cfg duration (if out > duration then 0 else seek)
                             out probe) = Inr ac
              \<and> ac \<noteq> []
              \<and> ((audio probe = [] \<and>
                    ac = [''aevalsrc=0:channel_layout=2:duration=''
                            @ str_num w (out - (if out > duration then 0 else seek))
                            @ '':sample_rate=48000''])
                  \<or> (audio probe \<noteq> [] \<and> (\<exists>rest. ac = ''[0:a]anull'' # rest)))
              \<and> v = pre @ [''-filter_complex'', join '','' ac @ ''[a]'',
                            ''-map'', ''[logo]'', ''-map'', ''[a]'']))
         \<and> ''0:a'' \<notin> set v
         \<and> (''1:a'' \<in> set v \<longleftrightarrow> dummy)"
proof (cases dummy)
  case True
  with assms show ?thesis
    by (auto simp: build_filtergraph_def Let_def snd_bind_Inr)
next
  case False
  with assms obtain vc ac where
    ac: "snd (audio_chain_of w cfg duration (if out > duration then 0 else seek) out probe)
           = Inr ac"
    and v: "v = [''-filter_complex'',
                 ''[0:v]'' @ (if vc \<noteq> [] then join '','' vc @ ''[v]'' else ''null[v]'') @ '';''
                   @ overlay_filter w cfg (out - (if out > duration then 0 else seek))
                       ad ad_last ad_next]
              @ (if ac \<noteq> [] then [''-filter_complex'', join '','' ac @ ''[a]''] else [])
              @ [''-map'', ''[logo]'']
              @ (if ac \<noteq> [] then [''-map'', ''[a]''] else [''-map'', ''0:a''])"
    by (auto simp: build_filtergraph_def Let_def snd_bind_Inr)
  from ac have ne: "ac \<noteq> []" by (rule audio_chain_nonempty)
  note shape = audio_chain_shape [OF ac]
  from v ne have "v = [''-filter_complex'',
                 ''[0:v]'' @ (if vc \<noteq> [] then join '','' vc @ ''[v]'' else ''null[v]'') @ '';''
                   @ overlay_filter w cfg (out - (if out > duration then 0 else seek))
                       ad ad_last ad_next]
              @ [''-filter_complex'', join '','' ac @ ''[a]'',
                 ''-map'', ''[logo]'', ''-map'', ''[a]'']"
    by simp
  with ac ne shape
  have 1: "\<exists>ac pre. snd (audio_chain_of w cfg duration (if out > duration then 0 else seek)
                             out probe) = Inr ac
              \<and> ac \<noteq> []
              \<and> ((audio probe = [] \<and>
                    ac = [''aevalsrc=0:channel_layout=2:duration=''
                            @ str_num w (out - (if out > duration then 0 else seek))
                            @ '':sample_rate=48000''])
                  \<or> (audio probe \<noteq> [] \<and> (\<exists>rest. ac = ''[0:a]anull'' # rest)))
              \<and> v = pre @ [''-filter_complex'', join '','' ac @ ''[a]'',
                            ''-map'', ''[logo]'', ''-map'', ''[a]'']"
    by blast
  from v ne have 2: "''0:a'' \<notin> set v" "''1:a'' \<notin> set v"
    by (simp_all add: ends_a_neq)
  from 1 2 False show ?thesis by simp
qed

theorem build_filtergraph_audio_map_witness:
  "snd (build_filtergraph world0 config0 30 0 30 False False False False probe0) =
     Inr [''-filter_complex'', ''[0:v]null[v];[v]null[logo]'',
          ''-filter_complex'', ''[0:a]anull[a]'', ''-map'', ''[logo]'', ''-map'', ''[a]'']
   \<and> ''1:a'' \<notin> set [''-filter_complex'', ''[0:v]null[v];[v]null[logo]'',
          ''-filter_complex'', ''[0:a]anull[a]'', ''-map'', ''[logo]'', ''-map'', ''[a]'']
   \<and> snd (build_filtergraph world0 config0 20 0 20 False False False True probe0) =
     Inr [''-filter_complex'', ''[0:v]null[v];[v]null[logo]'',
          ''-map'', ''[logo]'', ''-map'', ''1:a'']
   \<and> ''0:a'' \<notin> set [''-filter_complex'', ''[0:v]null[v];[v]null[logo]'',
          ''-map'', ''[logo]'', ''-map'', ''1:a'']"
proof -
  have h: "snd (build_filtergraph world0 config0 30 0 30 False False False False probe0) =
     Inr [''-filter_complex'', ''[0:v]null[v];[v]null[logo]'',
          ''-filter_complex'', ''[0:a]anull[a]'', ''-map'', ''[logo]'', ''-map'', ''[a]'']"
    by (simp add: build_filtergraph_example)
  have d: "snd (build_filtergraph world0 config0 20 0 20 False False False True probe0) =
     Inr [''-filter_complex'', ''[0:v]null[v];[v]null[logo]'',
          ''-map'', ''[logo]'', ''-map'', ''1:a'']"
    by (simp add: build_filtergraph_dummy_example)
  from build_filtergraph_audio_map [OF h]
  have 1: "''1:a'' \<notin> set [''-filter_complex'', ''[0:v]null[v];[v]null[logo]'',
          ''-filter_complex'', ''[0:a]anull[a]'', ''-map'', ''[logo]'', ''-map'', ''[a]'']"
    by blast
  from build_filtergraph_audio_map [OF d]
  have 2: "''0:a'' \<notin> set [''-filter_complex'', ''[0:v]null[v];[v]null[logo]'',
          ''-map'', ''[logo]'', ''-map'', ''1:a'']"
    by blast
  from h 1 d 2 show ?thesis by blast
qed

section \<open>Aspect correction\<close>

lemma isclose_within: "\<bar>a - A\<bar> \<le> t \<Longrightarrow> isclose a A t"
  by (auto simp: isclose_def)

lemma isclose_iff:
  "isclose a A t \<longleftrightarrow> \<bar>a - A\<bar> \<le> t \<or> \<bar>a - A\<bar> \<le> max \<bar>a\<bar> \<bar>A\<bar> / 10 ^ 9"
  unfolding isclose_def by (auto simp: max_def abs_if field_simps)

text \<open>
  C4 (as the code has it, which compares with \<open>math.isclose\<close> and so also accepts a
  difference within \<open>10\<^sup>-\<^sup>9\<close> of the larger aspect): for a clip whose first video stream
  has aspect \<open>a\<close> and a target aspect \<open>A\<close>, if \<open>|a - A| \<le> 0.03\<close> then \<open>pad_filter\<close> gives no
  filter and \<open>scale_filter\<close> gives no setdar filter; if \<open>|a - A| > 0.03\<close> and
  \<open>|a - A| > max |a| |A| / 10\<^sup>9\<close> then \<open>pad_filter\<close> gives the pillarbox pad when \<open>a < A\<close>
  and the letterbox pad when \<open>a > A\<close>, and \<open>scale_filter\<close> ends with the setdar filter.
\<close>

theorem pad_setdar_by_aspect:
  assumes "video0 probe = Inr vs"
  shows "(\<bar>aspect vs - pre_comp_aspect cfg\<bar> \<le> 3 / 100 \<longrightarrow>
            snd (pad_filter cfg probe) = Inr []
            \<and> (\<exists>sc. snd (scale_filter w cfg probe) = Inr sc \<and> setdar w cfg \<notin> set sc))
       \<and> (\<bar>aspect vs - pre_comp_aspect cfg\<bar> > 3 / 100
          \<and> \<bar>aspect vs - pre_comp_aspect cfg\<bar> > max \<bar>aspect vs\<bar> \<bar>pre_comp_aspect cfg\<bar> / 10 ^ 9 \<longrightarrow>
            snd (pad_filter cfg probe) =
              Inr [if aspect vs < pre_comp_aspect cfg then pillarbox cfg else letterbox cfg]
            \<and> (\<exists>sc. snd (scale_filter w cfg probe) = Inr (sc @ [setdar w cfg])))"
proof (intro conjI impI)
  assume c: "\<bar>aspect vs - pre_comp_aspect cfg\<bar> \<le> 3 / 100"
  then have ic: "isclose (aspect vs) (pre_comp_aspect cfg) (3 / 100)"
    by (rule isclose_within)
  with assms show "snd (pad_filter cfg probe) = Inr []"
    by (simp add: pad_filter_def bind_def lift_def ret_def)
  from assms ic show "\<exists>sc. snd (scale_filter w cfg probe) = Inr sc \<and> setdar w cfg \<notin> set sc"
    by (simp add: scale_filter_def bind_def lift_def ret_def setdar_def)
next
  assume c: "\<bar>aspect vs - pre_comp_aspect cfg\<bar> > 3 / 100
          \<and> \<bar>aspect vs - pre_comp_aspect cfg\<bar> > max \<bar>aspect vs\<bar> \<bar>pre_comp_aspect cfg\<bar> / 10 ^ 9"
  then have ic: "\<not> isclose (aspect vs) (pre_comp_aspect cfg) (3 / 100)"
    by (auto simp: isclose_iff max_def split: if_splits)
  from c have ne: "aspect vs \<noteq> pre_comp_aspect cfg" by auto
  from assms ic ne show "snd (pad_filter cfg probe) =
              Inr [if aspect vs < pre_comp_aspect cfg then pillarbox cfg else letterbox cfg]"
    by (simp add: pad_filter_def bind_def lift_def ret_def)
  from assms ic show "\<exists>sc. snd (scale_filter w cfg probe) = Inr (sc @ [setdar w cfg])"
    by (simp add: scale_filter_def bind_def lift_def ret_def)
qed

theorem pad_setdar_by_aspect_witness:
  "snd (pad_filter config0 probe0) = Inr []
   \<and> snd (pad_filter config0 probe_narrow) = Inr [pillarbox config0]
   \<and> snd (pad_filter config0 probe_scope) = Inr [letterbox config0]"
proof -
  have h0: "video0 probe0 = Inr \<lparr>width = 1024, height = 576, aspect = 1778 / 1000, fps = 25,
                     field_order = Some ''progressive'', v_duration = Some 30\<rparr>"
    by (simp add: video0_def probe0_def)
  have h1: "video0 probe_narrow = Inr \<lparr>width = 768, height = 576, aspect = 4 / 3, fps = 25,
                     field_order = Some ''progressive'', v_duration = Some 30\<rparr>"
    by (simp add: video0_def probe_narrow_def probe0_def)
  have h2: "video0 probe_scope = Inr \<lparr>width = 1024, height = 436, aspect = 235 / 100,
                     fps = 25, field_order = Some ''progressive'', v_duration = Some 30\<rparr>"
    by (simp add: video0_def probe_scope_def probe0_def)
  have a: "pre_comp_aspect config0 = 1778 / 1000"
    by (simp add: config0_def)
  from pad_setdar_by_aspect [OF h0, of config0 world0]
  have 0: "snd (pad_filter config0 probe0) = Inr []"
    by (simp add: a)
  from pad_setdar_by_aspect [OF h1, of config0 world0]
  have 1: "snd (pad_filter config0 probe_narrow) = Inr [pillarbox config0]"
    by (simp add: a)
  from pad_setdar_by_aspect [OF h2, of config0 world0]
  have 2: "snd (pad_filter config0 probe_scope) = Inr [letterbox config0]"
    by (simp add: a)
  from 0 1 2 show ?thesis by blast
qed

text \<open>
  C4 as stated fails for very large aspect values: with \<open>a = 10\<^sup>9\<close> and \<open>A = 10\<^sup>9 + 0.5\<close>
  the difference is above 0.03, yet \<open>math.isclose\<close> holds by its relative tolerance and
  neither a pad nor a setdar filter is built.
\<close>

theorem pad_setdar_counterexample:
  "\<bar>(10 ^ 9 :: real) - (10 ^ 9 + 1 / 2)\<bar> > 3 / 100
   \<and> video0 probe_huge = Inr \<lparr>width = 1024, height = 576, aspect = 10 ^ 9, fps = 25,
                     field_order = Some ''progressive'', v_duration = Some 30\<rparr>
   \<and> pre_comp_aspect config_huge = 10 ^ 9 + 1 / 2
   \<and> pad_filter config_huge probe_huge = ([], Inr [])
   \<and> scale_filter world0 config_huge probe_huge = ([], Inr [])"
  by (simp add: pad_filter_def scale_filter_def video0_def isclose_def bind_def lift_def ret_def
      probe_huge_def config_huge_def probe0_def config0_def)

section \<open>The list-end handler\<close>

lemma snd_bind:
  "snd (bind m f) = (case snd m of Inl e \<Rightarrow> Inl e | Inr x \<Rightarrow> snd (f x))"
  by (cases m) (auto simp: bind_def split: sum.splits prod.splits)

lemma fst_bind:
  "fst (bind m f) = (case snd m of Inl e \<Rightarrow> fst m | Inr x \<Rightarrow> fst m @ fst (f x))"
  by (cases m) (auto simp: bind_def split: sum.splits prod.splits)

lemma fst_ret [simp]: "fst (ret x) = []"
  by (simp add: ret_def)

lemma snd_messenger [simp]:
  "snd (messenger_info cfg msg) = Inr ()"
  "snd (messenger_warning cfg msg) = Inr ()"
  "snd (messenger_error cfg msg) = Inr ()"
  "snd (messenger_debug cfg msg) = Inr ()"
  by (simp_all add: messenger_info_def messenger_warning_def messenger_error_def
      messenger_debug_def)

lemmas clip_input_defs =
  handle_list_end_def src_or_dummy_def is_live_def is_local_def gen_dummy_def loop_input_def
  set_length_def seek_in_def fmt_src_def messenger_info_def messenger_warning_def
  messenger_error_def mailer_info_def mailer_warning_def mailer_error_def send_mail_def
  replace_nl_def bind_def ret_def emit_def raise_def
  world0_def media0_def config0_def str_whole_def fmt_whole_def str_int_def digit_char_def

lemma handle_list_end_example_truncate:
  "handle_list_end world0 config0 0 25200 (Some ''/media/clip.mp4'') 25180 60 0 60 =
     ([Log INFO ''We are over time, new length is: 20.00''],
      Inr (Some [''-i'', ''/media/clip.mp4'', ''-t'', ''20.0''], 0, 20, True))"
  by (simp add: clip_input_defs)

lemma handle_list_end_example_dummy:
  "handle_list_end world0 config0 0 25200 (Some ''/media/clip.mp4'') 25198 60 0 60 =
     ([Log INFO ''We are over time, new length is: 2.00''],
      Inr (Some [''-f'', ''lavfi'', ''-i'',
                 ''color=c=#121212:s=1024x576:d=2.0:r=25,format=pix_fmts=yuv420p'',
                 ''-f'', ''lavfi'', ''-i'', ''anoisesrc=d=2.0:c=pink:r=48000:a=0.05''],
           0, 2, True))"
  by (simp add: clip_input_defs)

lemma handle_list_end_example_skip:
  "snd (handle_list_end world0 config0 0 25200 (Some ''/media/clip.mp4'') (50399 / 2) 60 0 60) =
     Inr (None, 0, 1 / 2, True)"
  by (simp add: clip_input_defs)

lemma handle_list_end_example_short:
  "handle_list_end world0 config0 0 25200 (Some ''/media/clip.mp4'') 25200 10 0 10 =
     ([Log INFO ''We are over time, new length is: 0.00'',
       Log ERROR ''Playlist is not long enough: 10.00 seconds needed.'',
       Mail (''Playlist is not long enough:'' @ [CHR 0x0A] @ ''10.00 seconds needed.'')],
      Inr (Some [''-i'', ''/media/clip.mp4''], 0, 10, False))"
  by (simp add: clip_input_defs)

lemma handle_list_end_example_capped:
  "handle_list_end world0 config0 0 20 (Some ''/media/clip.mp4'') 0 22 5 30 =
     ([], Inr (Some [''-ss'', ''5.0'', ''-i'', ''/media/clip.mp4''], 5, 22, True))"
  by (simp add: clip_input_defs)

text \<open>
  C2 (as the code has it): whenever \<open>handle_list_end\<close> returns, the returned seek is the
  given one; with \<open>remaining = ref_time - (begin + time_delta)\<close>, if \<open>remaining > 0\<close> then
  \<open>new_out\<close> is \<open>(seek if seek > 0 else 0) + remaining\<close> capped at \<open>duration\<close>, and if
  \<open>remaining \<le> 0\<close> then \<open>new_out\<close> is the given \<open>out\<close>.
\<close>

theorem handle_list_end_new_out:
  assumes "snd (handle_list_end w cfg time_delta ref_time src begin dur seek out)
             = Inr (cmd, seek', new_out, next_playlist)"
  shows "seek' = seek
       \<and> (ref_time - (begin + time_delta) > 0 \<longrightarrow>
            new_out = min ((if seek > 0 then seek else 0) + (ref_time - (begin + time_delta))) dur)
       \<and> (ref_time - (begin + time_delta) \<le> 0 \<longrightarrow> new_out = out)"
  using assms
  by (auto simp: handle_list_end_def Let_def snd_bind split: if_splits sum.splits)

theorem handle_list_end_new_out_witness:
  "snd (handle_list_end world0 config0 0 25200 (Some ''/media/clip.mp4'') 25180 60 0 60) =
     Inr (Some [''-i'', ''/media/clip.mp4'', ''-t'', ''20.0''], 0, 20, True)
   \<and> (25200 :: real) - (25180 + 0) > 0
   \<and> (20 :: real) = min ((if (0 :: real) > 0 then 0 else 0) + (25200 - (25180 + 0))) 60
   \<and> snd (handle_list_end world0 config0 0 25200 (Some ''/media/clip.mp4'') 25200 10 0 10) =
     Inr (Some [''-i'', ''/media/clip.mp4''], 0, 10, False)
   \<and> (25200 :: real) - (25200 + 0) \<le> 0"
proof -
  have a: "snd (handle_list_end world0 config0 0 25200 (Some ''/media/clip.mp4'') 25180 60 0 60) =
     Inr (Some [''-i'', ''/media/clip.mp4'', ''-t'', ''20.0''], 0, 20, True)"
    by (simp add: handle_list_end_example_truncate)
  have b: "snd (handle_list_end world0 config0 0 25200 (Some ''/media/clip.mp4'') 25200 10 0 10) =
     Inr (Some [''-i'', ''/media/clip.mp4''], 0, 10, False)"
    by (simp add: handle_list_end_example_short)
  have p: "(25200 :: real) - (25180 + 0) > 0" by simp
  have q: "(25200 :: real) - (25200 + 0) \<le> 0" by simp
  from handle_list_end_new_out [OF a] p
  have 1: "(20 :: real) = min ((if (0 :: real) > 0 then 0 else 0) + (25200 - (25180 + 0))) 60"
    by blast
  from handle_list_end_new_out [OF b] q have "(10 :: real) = 10"
    by blast
  with a p 1 b q show ?thesis by blast
qed

text \<open>
  C2 as stated fails on inputs with \<open>begin + out + time_delta > ref_time\<close>. When the
  remaining time is 0 (\<open>begin = ref_time = 25200\<close>, \<open>out = duration = 10\<close>, \<open>seek = 0\<close>) the
  handler returns \<open>new_out = out = 10\<close>, while the remaining time clipped to
  \<open>[0, duration]\<close> is 0. When the seek is positive and the sum exceeds the duration
  (\<open>ref_time = 20\<close>, \<open>begin = 0\<close>, \<open>seek = 5\<close>, \<open>duration = 22\<close>, \<open>out = 30\<close>) it returns
  \<open>new_out = 22\<close>, so \<open>new_out - seek = 17\<close>, while the remaining time clipped to
  \<open>[0, duration]\<close> is 20. Both differ by more than a microsecond.
\<close>

theorem handle_list_end_roundtrip_counterexample:
  "(25200 :: real) + 10 + 0 > 25200
   \<and> snd (handle_list_end world0 config0 0 25200 (Some ''/media/clip.mp4'') 25200 10 0 10) =
       Inr (Some [''-i'', ''/media/clip.mp4''], 0, 10, False)
   \<and> \<bar>((10 :: real) - 0) - max 0 (min 10 (25200 - (25200 + 0)))\<bar> > 1 / 10 ^ 6
   \<and> (0 :: real) + 30 + 0 > 20
   \<and> snd (handle_list_end world0 config0 0 20 (Some ''/media/clip.mp4'') 0 22 5 30) =
       Inr (Some [''-ss'', ''5.0'', ''-i'', ''/media/clip.mp4''], 5, 22, True)
   \<and> \<bar>((22 :: real) - 5) - max 0 (min 22 (20 - (0 + 0)))\<bar> > 1 / 10 ^ 6"
  by (simp add: handle_list_end_example_short handle_list_end_example_capped)

text \<open>
  C3: the four cases of the list-end handler, with
  \<open>remaining = ref_time - (begin + time_delta)\<close> and \<open>new_out\<close> the value
  \<open>(seek if seek > 0 else 0) + remaining\<close> capped at \<open>duration\<close>. If \<open>remaining > 3\<close> the
  command is the source (by \<open>src_or_dummy\<close>) cut at \<open>new_out\<close>, with next-playlist true; if
  \<open>1 < remaining \<le> 3\<close> it is \<open>gen_dummy remaining\<close>, with next-playlist true; if
  \<open>0 < remaining \<le> 1\<close> there is no command, with next-playlist true; if \<open>remaining \<le> 0\<close>
  it is the source at its full \<open>out\<close>, with next-playlist false, and the error
  "Playlist is not long enough" with the missing seconds \<open>|remaining - duration|\<close> is
  logged.
\<close>

theorem handle_list_end_cases:
  fixes remaining new_out :: real
  assumes r: "remaining = ref_time - (begin + time_delta)"
    and n: "new_out = min ((if seek > 0 then seek else 0) + remaining) dur"
  shows "(remaining > 3 \<longrightarrow>
            snd (handle_list_end w cfg time_delta ref_time src begin dur seek out) =
              (case snd (src_or_dummy w cfg src dur seek new_out) of
                 Inl e \<Rightarrow> Inl e
               | Inr c \<Rightarrow> Inr (Some c, seek, new_out, True)))
       \<and> (1 < remaining \<and> remaining \<le> 3 \<longrightarrow>
            snd (handle_list_end w cfg time_delta ref_time src begin dur seek out) =
              Inr (Some (gen_dummy w cfg remaining), seek, new_out, True))
       \<and> (0 < remaining \<and> remaining \<le> 1 \<longrightarrow>
            snd (handle_list_end w cfg time_delta ref_time src begin dur seek out) =
              Inr (None, seek, new_out, True))
       \<and> (remaining \<le> 0 \<longrightarrow>
            snd (handle_list_end w cfg time_delta ref_time src begin dur seek out) =
              (case snd (src_or_dummy w cfg src dur seek out) of
                 Inl e \<Rightarrow> Inl e
               | Inr c \<Rightarrow> Inr (Some c, seek, out, False))
            \<and> ((\<exists>c. snd (src_or_dummy w cfg src dur seek out) = Inr c) \<longrightarrow>
                 Log ERROR (replace_nl (''Playlist is not long enough:'' @ [CHR 0x0A]
                       @ fmt_2f w \<bar>remaining - dur\<bar> @ '' seconds needed.''))
                   \<in> set (fst (handle_list_end w cfg time_delta ref_time src begin dur seek out))))"
proof (intro conjI impI)
  assume "remaining > 3"
  with r n show "snd (handle_list_end w cfg time_delta ref_time src begin dur seek out) =
              (case snd (src_or_dummy w cfg src dur seek new_out) of
                 Inl e \<Rightarrow> Inl e
               | Inr c \<Rightarrow> Inr (Some c, seek, new_out, True))"
    by (auto simp: handle_list_end_def Let_def snd_bind min_def split: sum.splits)
next
  assume "1 < remaining \<and> remaining \<le> 3"
  with r n show "snd (handle_list_end w cfg time_delta ref_time src begin dur seek out) =
              Inr (Some (gen_dummy w cfg remaining), seek, new_out, True)"
    by (auto simp: handle_list_end_def Let_def snd_bind min_def)
next
  assume "0 < remaining \<and> remaining \<le> 1"
  with r n show "snd (handle_list_end w cfg time_delta ref_time src begin dur seek out) =
              Inr (None, seek, new_out, True)"
    by (auto simp: handle_list_end_def Let_def snd_bind min_def)
next
  assume "remaining \<le> 0"
  with r show "snd (handle_list_end w cfg time_delta ref_time src begin dur seek out) =
              (case snd (src_or_dummy w cfg src dur seek out) of
                 Inl e \<Rightarrow> Inl e
               | Inr c \<Rightarrow> Inr (Some c, seek, out, False))"
    by (auto simp: handle_list_end_def Let_def snd_bind split: sum.splits)
next
  assume le: "remaining \<le> 0" and "\<exists>c. snd (src_or_dummy w cfg src dur seek out) = Inr c"
  then obtain c where c: "snd (src_or_dummy w cfg src dur seek out) = Inr c" by blast
  from le r c show "Log ERROR (replace_nl (''Playlist is not long enough:'' @ [CHR 0x0A]
                       @ fmt_2f w \<bar>remaining - dur\<bar> @ '' seconds needed.''))
                   \<in> set (fst (handle_list_end w cfg time_delta ref_time src begin dur seek out))"
    by (simp add: handle_list_end_def Let_def fst_bind snd_bind messenger_error_def
        messenger_info_def emit_def)
qed

theorem handle_list_end_cases_witness:
  "snd (handle_list_end world0 config0 0 25200 (Some ''/media/clip.mp4'') 25180 60 0 60) =
     (case snd (src_or_dummy world0 config0 (Some ''/media/clip.mp4'') 60 0 20) of
        Inl e \<Rightarrow> Inl e
      | Inr c \<Rightarrow> Inr (Some c, 0, 20, True))
   \<and> snd (handle_list_end world0 config0 0 25200 (Some ''/media/clip.mp4'') 25198 60 0 60) =
     Inr (Some (gen_dummy world0 config0 2), 0, 2, True)
   \<and> snd (handle_list_end world0 config0 0 25200 (Some ''/media/clip.mp4'') (50399 / 2) 60 0 60) =
     Inr (None, 0, 1 / 2, True)
   \<and> snd (handle_list_end world0 config0 0 25200 (Some ''/media/clip.mp4'') 25200 10 0 10) =
     (case snd (src_or_dummy world0 config0 (Some ''/media/clip.mp4'') 10 0 10) of
        Inl e \<Rightarrow> Inl e
      | Inr c \<Rightarrow> Inr (Some c, 0, 10, False))
   \<and> Log ERROR (replace_nl (''Playlist is not long enough:'' @ [CHR 0x0A]
                   @ fmt_2f world0 \<bar>0 - 10\<bar> @ '' seconds needed.''))
       \<in> set (fst (handle_list_end world0 config0 0 25200 (Some ''/media/clip.mp4'')
                      25200 10 0 10))"
proof -
  have s: "\<exists>c. snd (src_or_dummy world0 config0 (Some ''/media/clip.mp4'') 10 0 10) = Inr c"
    by (simp add: clip_input_defs)
  from handle_list_end_cases [of 20 25200 25180 0 20 0 60 world0 config0
      "Some ''/media/clip.mp4''" 60]
  have 1: "snd (handle_list_end world0 config0 0 25200 (Some ''/media/clip.mp4'') 25180 60 0 60) =
     (case snd (src_or_dummy world0 config0 (Some ''/media/clip.mp4'') 60 0 20) of
        Inl e \<Rightarrow> Inl e
      | Inr c \<Rightarrow> Inr (Some c, 0, 20, True))"
    by simp
  from handle_list_end_cases [of 2 25200 25198 0 2 0 60 world0 config0
      "Some ''/media/clip.mp4''" 60]
  have 2: "snd (handle_list_end world0 config0 0 25200 (Some ''/media/clip.mp4'') 25198 60 0 60) =
     Inr (Some (gen_dummy world0 config0 2), 0, 2, True)"
    by simp
  from handle_list_end_cases [of "1 / 2" 25200 "50399 / 2" 0 "1 / 2" 0 60 world0 config0
      "Some ''/media/clip.mp4''" 60]
  have 3: "snd (handle_list_end world0 config0 0 25200 (Some ''/media/clip.mp4'') (50399 / 2)
                  60 0 60) = Inr (None, 0, 1 / 2, True)"
    by simp
  from handle_list_end_cases [of 0 25200 25200 0 0 0 10 world0 config0
      "Some ''/media/clip.mp4''" 10] s
  have 4: "snd (handle_list_end world0 config0 0 25200 (Some ''/media/clip.mp4'') 25200 10 0 10) =
     (case snd (src_or_dummy world0 config0 (Some ''/media/clip.mp4'') 10 0 10) of
        Inl e \<Rightarrow> Inl e
      | Inr c \<Rightarrow> Inr (Some c, 0, 10, False))
   \<and> Log ERROR (replace_nl (''Playlist is not long enough:'' @ [CHR 0x0A]
                   @ fmt_2f world0 \<bar>0 - 10\<bar> @ '' seconds needed.''))
       \<in> set (fst (handle_list_end world0 config0 0 25200 (Some ''/media/clip.mp4'')
                      25200 10 0 10))"
    by simp
  from 1 2 3 4 show ?thesis by blast
qed

section \<open>The playlist iterator\<close>

text \<open>
  C8 (as the code has it): after a prepared clip, \<open>check_for_next_playlist\<close> sets
  \<open>last_time\<close> to \<open>begin\<close> when \<open>next_playlist\<close> is false; to \<open>2 * 86400\<close> when \<open>next_playlist\<close>
  is true and the configured playlist length is not 86400 (shorter, longer or not set);
  and when \<open>next_playlist\<close> is true and the length is 86400 it sets \<open>list_date\<close> to today's
  date, \<open>last_mod_time\<close> to 0 and \<open>last_time\<close> to \<open>day_start - 1\<close>. Nothing else changes.
\<close>

theorem check_for_next_playlist_cases:
  assumes "self_next_playlist self = Some next_playlist"
  shows "(\<not> next_playlist \<and> self_begin self = Some begin \<longrightarrow>
            check_for_next_playlist cfg today self = Inr (self\<lparr>self_last_time := begin\<rparr>))
       \<and> (next_playlist \<and> playlist_length cfg \<noteq> Some 86400 \<longrightarrow>
            check_for_next_playlist cfg today self = Inr (self\<lparr>self_last_time := 2 * 86400\<rparr>))
       \<and> (next_playlist \<and> playlist_length cfg = Some 86400 \<longrightarrow>
            check_for_next_playlist cfg today self =
              Inr (self\<lparr>self_list_date := today, self_last_mod_time := 0,
                        self_last_time := playlist_start cfg - 1\<rparr>))"
  using assms by (simp add: check_for_next_playlist_def)

theorem check_for_next_playlist_cases_witness:
  "check_for_next_playlist config0 ''2026-11-05''
     (iter0\<lparr>self_begin := Some 21600, self_next_playlist := Some False\<rparr>) =
     Inr (iter0\<lparr>self_begin := Some 21600, self_next_playlist := Some False,
                self_last_time := 21600\<rparr>)
   \<and> check_for_next_playlist config_long ''2026-11-05''
       (iter0\<lparr>self_begin := Some 21600, self_next_playlist := Some True\<rparr>) =
       Inr (iter0\<lparr>self_begin := Some 21600, self_next_playlist := Some True,
                  self_last_time := 2 * 86400\<rparr>)
   \<and> check_for_next_playlist config0 ''2026-11-05''
       (iter0\<lparr>self_begin := Some 21600, self_next_playlist := Some True\<rparr>) =
       Inr (iter0\<lparr>self_begin := Some 21600, self_next_playlist := Some True,
                  self_list_date := ''2026-11-05'', self_last_mod_time := 0,
                  self_last_time := playlist_start config0 - 1\<rparr>)"
proof -
  have f: "self_next_playlist (iter0\<lparr>self_begin := Some 21600, self_next_playlist := Some False\<rparr>)
             = Some False"
    by simp
  have t: "self_next_playlist (iter0\<lparr>self_begin := Some 21600, self_next_playlist := Some True\<rparr>)
             = Some True"
    by simp
  have l: "playlist_length config_long \<noteq> Some 86400"
    by (simp add: config_long_def)
  have d: "playlist_length config0 = Some 86400"
    by (simp add: config0_def)
  from check_for_next_playlist_cases [OF f, of 21600 config0 "''2026-11-05''"]
  have 1: "check_for_next_playlist config0 ''2026-11-05''
     (iter0\<lparr>self_begin := Some 21600, self_next_playlist := Some False\<rparr>) =
     Inr (iter0\<lparr>self_begin := Some 21600, self_next_playlist := Some False,
                self_last_time := 21600\<rparr>)"
    by simp
  from check_for_next_playlist_cases [OF t, of 21600 config_long "''2026-11-05''"] l
  have 2: "check_for_next_playlist config_long ''2026-11-05''
       (iter0\<lparr>self_begin := Some 21600, self_next_playlist := Some True\<rparr>) =
       Inr (iter0\<lparr>self_begin := Some 21600, self_next_playlist := Some True,
                  self_last_time := 2 * 86400\<rparr>)"
    by simp
  from check_for_next_playlist_cases [OF t, of 21600 config0 "''2026-11-05''"] d
  have 3: "check_for_next_playlist config0 ''2026-11-05''
       (iter0\<lparr>self_begin := Some 21600, self_next_playlist := Some True\<rparr>) =
       Inr (iter0\<lparr>self_begin := Some 21600, self_next_playlist := Some True,
                  self_list_date := ''2026-11-05'', self_last_mod_time := 0,
                  self_last_time := playlist_start config0 - 1\<rparr>)"
    by simp
  from 1 2 3 show ?thesis by blast
qed

text \<open>
  C8 as stated fails for a playlist longer than a day: with a configured length of 90000
  seconds, which is not less than 86400, and \<open>next_playlist\<close> true, \<open>last_time\<close> becomes
  \<open>2 * 86400 = 172800\<close> and not \<open>day_start - 1\<close>, and \<open>list_date\<close> is not reset.
\<close>

theorem check_for_next_playlist_counterexample:
  "playlist_length config_long = Some 90000
   \<and> \<not> (90000 :: real) < 86400
   \<and> check_for_next_playlist config_long ''2026-11-05''
        (iter0\<lparr>self_begin := Some 21600, self_next_playlist := Some True\<rparr>) =
       Inr (iter0\<lparr>self_begin := Some 21600, self_next_playlist := Some True,
                  self_last_time := 172800\<rparr>)
   \<and> (172800 :: real) \<noteq> playlist_start config_long - 1
   \<and> self_list_date (iter0\<lparr>self_begin := Some 21600, self_next_playlist := Some True,
                  self_last_time := 172800\<rparr>) \<noteq> ''2026-11-05''"
  by (simp add: check_for_next_playlist_def config_long_def config0_def iter0_def
      source_iter_init_def Let_def)

text \<open>
  C10: if the playlist entry has no \<open>category\<close> key, \<open>get_category\<close> returns the iterator
  unchanged, so \<open>ad\<close>, \<open>ad_last\<close> and \<open>ad_next\<close> keep the values of the clip prepared
  before; and whenever \<open>get_category\<close> returns, all fields other than \<open>ad\<close>, \<open>ad_last\<close> and
  \<open>ad_next\<close> are the ones it was given.
\<close>

theorem get_category_frame:
  "(node_category node = None \<longrightarrow> get_category self index node = Inr self)
   \<and> (get_category self index node = Inr self' \<longrightarrow>
        self' = self\<lparr>self_ad := self_ad self', self_ad_last := self_ad_last self',
                      self_ad_next := self_ad_next self'\<rparr>)"
  by (auto simp: get_category_def split: option.splits sum.splits)

theorem get_category_frame_witness:
  "node_category node_plain = None
   \<and> get_category (iter_ads\<lparr>self_ad_last := True\<rparr>) 1 node_plain =
       Inr (iter_ads\<lparr>self_ad_last := True\<rparr>)
   \<and> get_category iter_ads 1 node_film = Inr (iter_ads\<lparr>self_ad_last := True\<rparr>)
   \<and> iter_ads\<lparr>self_ad_last := True\<rparr> =
       iter_ads\<lparr>self_ad := self_ad (iter_ads\<lparr>self_ad_last := True\<rparr>),
                self_ad_last := self_ad_last (iter_ads\<lparr>self_ad_last := True\<rparr>),
                self_ad_next := self_ad_next (iter_ads\<lparr>self_ad_last := True\<rparr>)\<rparr>"
proof -
  have n: "node_category node_plain = None"
    by (simp add: node_plain_def)
  have g: "get_category iter_ads 1 node_film = Inr (iter_ads\<lparr>self_ad_last := True\<rparr>)"
    by (simp add: get_category_def category_at_def program_length_def iter_ads_def
        iter0_def source_iter_init_def Let_def node_film_def node_ad_def)
  from get_category_frame [of node_plain "iter_ads\<lparr>self_ad_last := True\<rparr>" 1] n
  have 1: "get_category (iter_ads\<lparr>self_ad_last := True\<rparr>) 1 node_plain =
       Inr (iter_ads\<lparr>self_ad_last := True\<rparr>)"
    by blast
  from get_category_frame [of node_film iter_ads 1 "iter_ads\<lparr>self_ad_last := True\<rparr>"] g
  have 2: "iter_ads\<lparr>self_ad_last := True\<rparr> =
       iter_ads\<lparr>self_ad := self_ad (iter_ads\<lparr>self_ad_last := True\<rparr>),
                self_ad_last := self_ad_last (iter_ads\<lparr>self_ad_last := True\<rparr>),
                self_ad_next := self_ad_next (iter_ads\<lparr>self_ad_last := True\<rparr>)\<rparr>"
    by blast
  from n 1 g 2 show ?thesis by blast
qed

section \<open>Folder mode: shuffle\<close>

lemma half_cond: "(real (length lp) > real n / 2) = (length lp > n div 2)"
proof -
  have "(real (length lp) > real n / 2) = (real n < real (2 * length lp))"
    by (simp add: field_simps)
  also have "\<dots> = (n < 2 * length lp)" by (simp only: of_nat_less_iff)
  also have "\<dots> = (length lp > n div 2)" by arith
  finally show ?thesis .
qed

lemma spaced_distinct: "distinct xs \<Longrightarrow> spaced k xs"
  by (induction xs) (auto dest: in_set_takeD)

lemma spaced_nth:
  "spaced k xs \<Longrightarrow> i < j \<Longrightarrow> j < length xs \<Longrightarrow> j - i \<le> k \<Longrightarrow> xs ! i \<noteq> xs ! j"
proof (induction xs arbitrary: i j)
  case Nil
  then show ?case by simp
next
  case (Cons x xs)
  show ?case
  proof (cases i)
    case 0
    with Cons.prems obtain j' where j: "j = Suc j'" "j' < length xs" "j' < k"
      by (cases j) auto
    then have "xs ! j' \<in> set (take k xs)"
      by (metis in_set_conv_nth length_take min_less_iff_conj nth_take)
    with Cons.prems 0 j show ?thesis by auto
  next
    case (Suc i')
    with Cons.prems obtain j' where j: "j = Suc j'" by (cases j) auto
    with Cons Suc show ?thesis by auto
  qed
qed

lemma spaced_drop_head:
  assumes "distinct lp" "length lp = Suc k" "spaced k (map f (tl lp) @ ys)" "inj f"
  shows "spaced k (map f lp @ ys)"
proof -
  from assms obtain x lp1 where lp: "lp = x # lp1" "length lp1 = k" "x \<notin> set lp1"
    by (cases lp) auto
  with assms show ?thesis by (auto simp: inj_def)
qed

lemma yielded_append [simp]: "yielded (a @ b) = yielded a @ yielded b"
  by (induction a rule: yielded.induct) auto

lemma fst_lift [simp]: "fst (lift x) = []"
  by (simp add: lift_def)

lemma yielded_messenger [simp]:
  "yielded (fst (messenger_info cfg msg)) = []"
  "yielded (fst (messenger_warning cfg msg)) = []"
  "yielded (fst (messenger_error cfg msg)) = []"
  by (simp_all add: messenger_info_def messenger_warning_def messenger_error_def emit_def
      mailer_info_def mailer_warning_def mailer_error_def send_mail_def)

lemma yielded_media_probe_load [simp]: "yielded (fst (media_probe_load w cfg file)) = []"
  by (simp add: media_probe_load_def fst_bind split: option.splits)

lemma yielded_bind:
  "yielded (fst m) = [] \<Longrightarrow> (\<And>x. yielded (fst (f x)) = []) \<Longrightarrow> yielded (fst (bind m f)) = []"
  by (simp add: fst_bind split: sum.splits)

lemma yielded_raise [simp]: "yielded (fst (raise e)) = []"
  by (simp add: raise_def)

lemma yielded_filters [simp]:
  "yielded (fst (deinterlace_filter p)) = []"
  "yielded (fst (pad_filter cfg p)) = []"
  "yielded (fst (fps_filter cfg p)) = []"
  "yielded (fst (scale_filter w cfg p)) = []"
  "yielded (fst (extend_video w p d t)) = []"
  "yielded (fst (add_audio w cfg p d)) = []"
  "yielded (fst (add_loudnorm w cfg p)) = []"
  "yielded (fst (extend_audio w p d)) = []"
  by (simp_all add: deinterlace_filter_def pad_filter_def fps_filter_def scale_filter_def
      extend_video_def add_audio_def add_loudnorm_def extend_audio_def yielded_bind
      split: list.splits option.splits)

lemma yielded_chains [simp]:
  "yielded (fst (video_chain_of w cfg d s out p)) = []"
  "yielded (fst (audio_chain_of w cfg d s out p)) = []"
  by (simp_all add: video_chain_of_def audio_chain_of_def yielded_bind)

lemma yielded_build_filtergraph [simp]:
  "yielded (fst (build_filtergraph w cfg d s out ad al an dummy p)) = []"
  by (simp add: build_filtergraph_def Let_def yielded_bind split: prod.splits)

lemma yielded_yield_clip:
  "map current_file (yielded (fst (yield_clip w cfg clip))) =
     (case snd (yield_clip w cfg clip) of Inl e \<Rightarrow> [] | Inr _ \<Rightarrow> [Inr clip])"
  by (auto simp: yield_clip_def fst_bind snd_bind emit_def current_file_def
      split: sum.splits)

lemma next_shuffle_Cons_error:
  "random_choice media r = Inl e \<Longrightarrow> fst (next_shuffle w cfg media lp (r # rs)) = []"
  by (simp add: fst_bind)

lemma next_shuffle_Cons_events:
  assumes "random_choice media r = Inr clip"
    and "lp1 = (if length lp > length media div 2 then tl lp else lp)"
  shows "fst (next_shuffle w cfg media lp (r # rs)) =
     (if clip \<notin> set lp1 then
        fst (yield_clip w cfg clip)
        @ (case snd (yield_clip w cfg clip) of
             Inl e \<Rightarrow> []
           | Inr _ \<Rightarrow> fst (next_shuffle w cfg media (lp1 @ [clip]) rs))
      else fst (next_shuffle w cfg media lp1 rs))"
proof -
  have "next_shuffle w cfg media lp (r # rs) =
      (if clip \<notin> set lp1 then
         bind (yield_clip w cfg clip) (\<lambda>_. next_shuffle w cfg media (lp1 @ [clip]) rs)
       else next_shuffle w cfg media lp1 rs)"
    unfolding next_shuffle.simps assms(1) assms(2) half_cond Let_def
    by (simp add: bind_def lift_def split: prod.splits)
  then show ?thesis
    by (simp add: fst_bind split: sum.splits)
qed


declare next_shuffle.simps(2) [simp del]

lemma next_shuffle_spaced:
  "distinct lp \<Longrightarrow> length lp \<le> Suc (length media div 2) \<Longrightarrow>
   spaced (length media div 2)
     (map Inr lp @ map current_file (yielded (fst (next_shuffle w cfg media lp rs))))"
proof (induction rs arbitrary: lp)
  case Nil
  then show ?case by (simp add: spaced_distinct distinct_map)
next
  case (Cons r rs)
  define k where "k = length media div 2"
  define lp1 where "lp1 = (if length lp > length media div 2 then tl lp else lp)"
  have d0: "spaced k (map Inr lp :: (py_error + string) list)"
    using Cons.prems by (simp add: spaced_distinct distinct_map)
  have d1: "distinct lp1" using Cons.prems by (simp add: lp1_def distinct_tl)
  have l1: "length lp1 \<le> k" using Cons.prems by (auto simp: lp1_def k_def)
  have up: "spaced k (map Inr lp @ ys)" if "spaced k (map Inr lp1 @ ys)"
    for ys :: "(py_error + string) list"
  proof (cases "length lp > k")
    case True
    with Cons.prems have len: "length lp = Suc k" by (simp add: k_def)
    from True that have "spaced k (map Inr (tl lp) @ ys)" by (simp add: lp1_def k_def)
    with Cons.prems(1) len show ?thesis
      by (rule spaced_drop_head) simp
  next
    case False
    with that show ?thesis by (simp add: lp1_def k_def)
  qed
  show ?case
  proof (cases "random_choice media r")
    case (Inl e)
    with d0 show ?thesis
      by (simp add: next_shuffle_Cons_error k_def)
  next
    case (Inr clip)
    note ev = next_shuffle_Cons_events [OF Inr lp1_def, of w cfg rs]
    show ?thesis
    proof (cases "clip \<in> set lp1")
      case True
      from Cons.IH [OF d1] l1
      have "spaced k (map Inr lp1
              @ map current_file (yielded (fst (next_shuffle w cfg media lp1 rs))))"
        by (simp add: k_def)
      then have "spaced k (map Inr lp
              @ map current_file (yielded (fst (next_shuffle w cfg media lp1 rs))))"
        by (rule up)
      with True show ?thesis
        by (simp add: ev k_def)
    next
      case False
      have d2: "distinct (lp1 @ [clip])" using d1 False by simp
      have l2: "length (lp1 @ [clip]) \<le> Suc (length media div 2)" using l1 by (simp add: k_def)
      show ?thesis
      proof (cases "snd (yield_clip w cfg clip)")
        case (Inl e)
        with False d0 yielded_yield_clip [of w cfg clip] show ?thesis
          by (simp add: ev k_def)
      next
        case (Inr u)
        from Cons.IH [OF d2 l2]
        have "spaced k (map Inr lp1 @ (Inr clip
                # map current_file (yielded (fst (next_shuffle w cfg media (lp1 @ [clip]) rs)))))"
          by (simp add: k_def)
        then have "spaced k (map Inr lp @ (Inr clip
                # map current_file (yielded (fst (next_shuffle w cfg media (lp1 @ [clip]) rs)))))"
          by (rule up)
        with Inr False yielded_yield_clip [of w cfg clip]
        show ?thesis
          by (simp add: ev k_def)
      qed
    qed
  qed
qed

lemma logo_not_media: "''logo.png'' \<notin> set media0"
  by (simp add: media0_def)

lemma yield_clip_example:
  "clip \<in> set media0 \<Longrightarrow>
   yield_clip world0 config0 clip =
     ([Yield [''-i'', clip, ''-filter_complex'', ''[0:v]null[v];[v]null[logo]'',
              ''-filter_complex'', ''[0:a]anull[a]'',
              ''-map'', ''[logo]'', ''-map'', ''[a]'']], Inr ())"
  by (simp add: yield_clip_def media_probe_load_def probe_format_duration_def
     build_filtergraph_def video_chain_of_def audio_chain_of_def
     deinterlace_filter_def pad_filter_def fps_filter_def scale_filter_def extend_video_def
     fade_filter_def add_audio_def add_loudnorm_def extend_audio_def overlay_filter_def
     video0_def a_samples_def isclose_def bind_def ret_def lift_def emit_def
     world0_def config0_def probe0_def logo_not_media)

lemma next_shuffle_example:
  "map current_file (yielded (fst (next_shuffle world0 config0
       [''/media/a.mp4'', ''/media/b.mp4'', ''/media/clip.mp4''] [] [0, 0, 1, 0]))) =
     [Inr ''/media/a.mp4'', Inr ''/media/b.mp4'', Inr ''/media/a.mp4'']"
  by (simp add: next_shuffle.simps(2) random_choice_def yield_clip_example media0_def bind_def lift_def ret_def
      current_file_def)

text \<open>
  C7: for a store of fixed size \<open>N \<ge> 2\<close>, take the files (\<open>current_file\<close>) of the vectors
  that the shuffle branch of \<open>GetSource.next\<close> yields, started with an empty \<open>last_played\<close>
  and run for any sequence of random choices. Two of them at positions \<open>i < j\<close> with
  \<open>j - i \<le> N div 2\<close>, that is, within a window of \<open>N div 2 + 1\<close> consecutive clips, are
  different.
\<close>

theorem shuffle_anti_repeat:
  assumes "length media \<ge> 2"
    and "paths = map current_file (yielded (fst (next_shuffle w cfg media [] rs)))"
    and "i < j" and "j < length paths" and "j - i \<le> length media div 2"
  shows "paths ! i \<noteq> paths ! j"
proof -
  have "spaced (length media div 2) paths"
    using next_shuffle_spaced [of "[]" media w cfg rs] assms(2) by simp
  then show ?thesis using assms(3-5) by (rule spaced_nth)
qed

theorem shuffle_anti_repeat_witness:
  "length [''/media/a.mp4'', ''/media/b.mp4'', ''/media/clip.mp4''] \<ge> 2
   \<and> map current_file (yielded (fst (next_shuffle world0 config0
         [''/media/a.mp4'', ''/media/b.mp4'', ''/media/clip.mp4''] [] [0, 0, 1, 0]))) =
       [Inr ''/media/a.mp4'', Inr ''/media/b.mp4'', Inr ''/media/a.mp4'']
   \<and> (0 :: nat) < 1
   \<and> 1 < length [Inr ''/media/a.mp4'', Inr ''/media/b.mp4'', Inr ''/media/a.mp4'' :: py_error + string]
   \<and> (1 :: nat) - 0 \<le> length [''/media/a.mp4'', ''/media/b.mp4'', ''/media/clip.mp4''] div 2
   \<and> [Inr ''/media/a.mp4'', Inr ''/media/b.mp4'', Inr ''/media/a.mp4'' :: py_error + string] ! 0
       \<noteq> [Inr ''/media/a.mp4'', Inr ''/media/b.mp4'', Inr ''/media/a.mp4''] ! 1"
proof -
  have n: "length [''/media/a.mp4'', ''/media/b.mp4'', ''/media/clip.mp4''] \<ge> 2"
    by simp
  have p: "[Inr ''/media/a.mp4'', Inr ''/media/b.mp4'', Inr ''/media/a.mp4''] =
       map current_file (yielded (fst (next_shuffle world0 config0
         [''/media/a.mp4'', ''/media/b.mp4'', ''/media/clip.mp4''] [] [0, 0, 1, 0])))"
    by (simp only: next_shuffle_example)
  have i: "(0 :: nat) < 1"
    by simp
  have j: "1 < length [Inr ''/media/a.mp4'', Inr ''/media/b.mp4'',
                       Inr ''/media/a.mp4'' :: py_error + string]"
    by simp
  have w: "(1 :: nat) - 0 \<le> length [''/media/a.mp4'', ''/media/b.mp4'', ''/media/clip.mp4''] div 2"
    by simp
  note shuffle_anti_repeat [OF n p i j w]
  with n p [symmetric] i j w show ?thesis by blast
qed

section \<open>Folder mode: the store\<close>

lemma sort_sort_append:
  fixes g :: "string list"
  shows "sort (sort g @ g) = sort (sort g @ sort g)"
  by (rule properties_for_sort) simp_all

lemma fill_example:
  "store (fill world0 config0 \<lparr>store = [], folder = ''/media''\<rparr>) =
     [''/media/a.mp4'', ''/media/b.mp4'', ''/media/clip.mp4'']"
  by (simp add: fill_def sort_store_def world0_def media0_def config0_def
      less_eq_char_def less_char_def)

lemma fill_twice_example:
  "store (fill world0 config0 (fill world0 config0 \<lparr>store = [], folder = ''/media''\<rparr>)) =
     [''/media/a.mp4'', ''/media/a.mp4'', ''/media/b.mp4'', ''/media/b.mp4'',
      ''/media/clip.mp4'', ''/media/clip.mp4'']"
  by (simp add: fill_def sort_store_def world0_def media0_def config0_def
      less_eq_char_def less_char_def)

text \<open>
  C6 (as the code has it): \<open>fill\<close> appends the matches of the directory to the store and
  sorts it. After one and after two calls the store is sorted, and the second call
  leaves the same set of paths; but it does not leave the same sequence: starting from
  the empty store of the constructor, the store after the second call is the sorted
  concatenation of the store after the first call with itself, so every path occurs in
  it twice as often.
\<close>

theorem fill_twice:
  "sorted (store (fill w cfg ms))
   \<and> sorted (store (fill w cfg (fill w cfg ms)))
   \<and> set (store (fill w cfg (fill w cfg ms))) = set (store (fill w cfg ms))
   \<and> (store ms = [] \<longrightarrow>
        store (fill w cfg (fill w cfg ms)) = sort (store (fill w cfg ms) @ store (fill w cfg ms))
        \<and> (\<forall>p. count_list (store (fill w cfg (fill w cfg ms))) p
                 = 2 * count_list (store (fill w cfg ms)) p))"
proof -
  let ?g = "concat (map (glob_rec w (folder ms)) (storage_extensions cfg))"
  have 1: "store (fill w cfg ms) = sort (store ms @ ?g)"
    by (simp add: fill_def sort_store_def)
  have 2: "store (fill w cfg (fill w cfg ms)) = sort (sort (store ms @ ?g) @ ?g)"
    by (simp add: fill_def sort_store_def)
  have 3: "store (fill w cfg (fill w cfg ms)) = sort (sort ?g @ sort ?g)" if "store ms = []"
    using that 2 by (simp add: sort_sort_append)
  have 4: "count_list (sort (sort ?g @ sort ?g)) p = 2 * count_list (sort ?g) p" for p
    by (simp add: count_mset [symmetric])
  from 1 2 3 4 show ?thesis by auto
qed

theorem fill_twice_witness:
  "store \<lparr>store = [], folder = ''/media''\<rparr> = []
   \<and> store (fill world0 config0 \<lparr>store = [], folder = ''/media''\<rparr>) =
       [''/media/a.mp4'', ''/media/b.mp4'', ''/media/clip.mp4'']
   \<and> store (fill world0 config0 (fill world0 config0 \<lparr>store = [], folder = ''/media''\<rparr>)) =
       sort ([''/media/a.mp4'', ''/media/b.mp4'', ''/media/clip.mp4'']
             @ [''/media/a.mp4'', ''/media/b.mp4'', ''/media/clip.mp4''])
   \<and> sorted (store (fill world0 config0
                      (fill world0 config0 \<lparr>store = [], folder = ''/media''\<rparr>)))"
proof -
  have e: "store \<lparr>store = [], folder = ''/media''\<rparr> = []"
    by simp
  note t = fill_twice [of world0 config0 "\<lparr>store = [], folder = ''/media''\<rparr>"]
  from t e
  have "store (fill world0 config0 (fill world0 config0 \<lparr>store = [], folder = ''/media''\<rparr>)) =
          sort (store (fill world0 config0 \<lparr>store = [], folder = ''/media''\<rparr>)
                @ store (fill world0 config0 \<lparr>store = [], folder = ''/media''\<rparr>))"
    by blast
  then have 1: "store (fill world0 config0
                         (fill world0 config0 \<lparr>store = [], folder = ''/media''\<rparr>)) =
       sort ([''/media/a.mp4'', ''/media/b.mp4'', ''/media/clip.mp4'']
             @ [''/media/a.mp4'', ''/media/b.mp4'', ''/media/clip.mp4''])"
    by (simp only: fill_example)
  from t have 2: "sorted (store (fill world0 config0
                      (fill world0 config0 \<lparr>store = [], folder = ''/media''\<rparr>)))"
    by blast
  from e fill_example 1 2 show ?thesis by blast
qed

text \<open>
  C6 as stated fails on a directory with three clips: the store after the second
  \<open>fill\<close> holds every path twice and so differs from the store after the first.
\<close>

theorem fill_idempotent_counterexample:
  "store (fill world0 config0 \<lparr>store = [], folder = ''/media''\<rparr>) =
     [''/media/a.mp4'', ''/media/b.mp4'', ''/media/clip.mp4'']
   \<and> store (fill world0 config0 (fill world0 config0 \<lparr>store = [], folder = ''/media''\<rparr>)) =
     [''/media/a.mp4'', ''/media/a.mp4'', ''/media/b.mp4'', ''/media/b.mp4'',
      ''/media/clip.mp4'', ''/media/clip.mp4'']
   \<and> store (fill world0 config0 (fill world0 config0 \<lparr>store = [], folder = ''/media''\<rparr>))
       \<noteq> store (fill world0 config0 \<lparr>store = [], folder = ''/media''\<rparr>)"
  by (simp add: fill_example fill_twice_example)

section \<open>End of the playlist: notifications\<close>

lemma mem_fst_bind:
  "snd m = Inr x \<Longrightarrow> e \<in> set (fst (f x)) \<Longrightarrow> e \<in> set (fst (bind m f))"
  by (simp add: fst_bind)

lemma eof_reset_json_file [simp]:
  "self_json_file (eof_reset cfg now today self) = self_json_file self"
  by (simp add: eof_reset_def Let_def)

lemma eof_source_json_file:
  "snd (eof_source w cfg filler self) = Inr self' \<Longrightarrow> self_json_file self' = self_json_file self"
  by (auto simp: eof_source_def snd_bind_Inr split: if_splits)

lemma set_filtergraph_json_file:
  "snd (set_filtergraph w cfg self) = Inr self' \<Longrightarrow> self_json_file self' = self_json_file self"
  by (auto simp: set_filtergraph_def snd_bind_Inr)

lemma eof_notify_events:
  "fst (eof_notify cfg stamp stamp' message self) =
     (if stamp - self_timestamp self > 3600 \<and> message \<noteq> self_last_error self
      then fst (messenger_error cfg (message @ [CHR 0x0A] @ fmt_src (self_json_file self)))
      else [])
     @ fst (messenger_error cfg (message @ '' '' @ fmt_src (self_json_file self)))"
  by (simp add: eof_notify_def fst_bind snd_bind)

lemma messenger_error_events:
  "fst (messenger_error cfg msg) =
     Log ERROR (replace_nl msg)
     # (if mail_level cfg \<in> set [''INFO'', ''WARNING'', ''ERROR''] \<and> mail_recip cfg \<noteq> []
        then [Mail msg] else [])"
  by (simp add: messenger_error_def emit_def mailer_error_def send_mail_def)

lemmas eof_defs = eof_handling_def eof_reset_def eof_source_def eof_notify_def
  set_filtergraph_def build_filtergraph_def overlay_filter_def gen_dummy_def
  messenger_error_def mailer_error_def send_mail_def replace_nl_def fmt_src_def
  bind_def ret_def emit_def Let_def
  iter0_def source_iter_init_def world0_def config0_def
  str_whole_def fmt_whole_def str_int_def digit_char_def

lemma eof_first_call:
  "map_sum id self_last_error
     (snd (eof_handling world0 config0 30000 ''2026-11-04'' 5000 5000 ''Playlist not exist:''
             False iter0)) = Inr ''Playlist not exist:''
   \<and> map_sum id self_timestamp
     (snd (eof_handling world0 config0 30000 ''2026-11-04'' 5000 5000 ''Playlist not exist:''
             False iter0)) = Inr 5000"
  by (simp add: eof_defs logo_not_media)

lemma eof_first_call_events:
  "fst (eof_handling world0 config0 30000 ''2026-11-04'' 5000 5000 ''Playlist not exist:''
             False iter0) =
     [Log ERROR ''Playlist not exist: /playlists/2026/11/2026-11-04.json'',
      Mail (''Playlist not exist:'' @ [CHR 0x0A] @ ''/playlists/2026/11/2026-11-04.json''),
      Log ERROR ''Playlist not exist: /playlists/2026/11/2026-11-04.json'',
      Mail ''Playlist not exist: /playlists/2026/11/2026-11-04.json'']"
  by (simp add: eof_defs logo_not_media)

lemma eof_second_call:
  "fst (eof_handling world0 config0 30010 ''2026-11-04'' 5010 5010 ''Playlist not exist:''
          False iter_notified) =
     [Log ERROR ''Playlist not exist: /playlists/2026/11/2026-11-04.json'',
      Mail ''Playlist not exist: /playlists/2026/11/2026-11-04.json'']
   \<and> (\<exists>s. snd (eof_handling world0 config0 30010 ''2026-11-04'' 5010 5010
                  ''Playlist not exist:'' False iter_notified) = Inr s)"
  by (simp add: eof_defs iter_notified_def logo_not_media)

text \<open>
  C5, what the code does: whenever \<open>eof_handling\<close> returns, and a mail recipient is
  configured with a mail level that lets errors through, its events contain both the
  log record of the error and a mail with the error, whatever the stamp of the last
  notification and the last message are. So the log entry is written on every
  occurrence, as the claim says, but so is a mail: the mail of the same message is not
  held back for 3600 seconds.
\<close>

theorem eof_handling_mails_every_call:
  assumes r: "snd (eof_handling w cfg now today stamp stamp' message filler self) = Inr self'"
    and recip: "mail_recip cfg \<noteq> []"
    and lvl: "mail_level cfg \<in> set [''INFO'', ''WARNING'', ''ERROR'']"
  shows "Mail (message @ '' '' @ fmt_src (self_json_file self))
           \<in> set (fst (eof_handling w cfg now today stamp stamp' message filler self))
       \<and> Log ERROR (replace_nl (message @ '' '' @ fmt_src (self_json_file self)))
           \<in> set (fst (eof_handling w cfg now today stamp stamp' message filler self))"
proof -
  from r obtain self1 self2 where
    s1: "snd (eof_source w cfg filler (eof_reset cfg now today self)) = Inr self1"
    and s2: "snd (set_filtergraph w cfg self1) = Inr self2"
    by (auto simp: eof_handling_def snd_bind_Inr)
  have j: "self_json_file self2 = self_json_file self"
    using eof_source_json_file [OF s1] set_filtergraph_json_file [OF s2] by simp
  have ev: "set (fst (eof_notify cfg stamp stamp' message self2))
              \<subseteq> set (fst (eof_handling w cfg now today stamp stamp' message filler self))"
    using s1 s2 by (auto simp: eof_handling_def fst_bind)
  have "Mail (message @ '' '' @ fmt_src (self_json_file self))
          \<in> set (fst (eof_notify cfg stamp stamp' message self2))"
    using recip lvl by (simp add: eof_notify_events messenger_error_events j)
  moreover have "Log ERROR (replace_nl (message @ '' '' @ fmt_src (self_json_file self)))
          \<in> set (fst (eof_notify cfg stamp stamp' message self2))"
    by (simp add: eof_notify_events messenger_error_events j)
  ultimately show ?thesis using ev by blast
qed

theorem eof_handling_mails_every_call_witness:
  "map_sum id self_last_error
     (snd (eof_handling world0 config0 30000 ''2026-11-04'' 5000 5000 ''Playlist not exist:''
             False iter0)) = Inr ''Playlist not exist:''
   \<and> map_sum id self_timestamp
     (snd (eof_handling world0 config0 30000 ''2026-11-04'' 5000 5000 ''Playlist not exist:''
             False iter0)) = Inr 5000
   \<and> self_last_error iter_notified = ''Playlist not exist:''
   \<and> 5010 - self_timestamp iter_notified \<le> 3600
   \<and> mail_recip config0 \<noteq> []
   \<and> mail_level config0 \<in> set [''INFO'', ''WARNING'', ''ERROR'']
   \<and> Mail ''Playlist not exist: /playlists/2026/11/2026-11-04.json''
       \<in> set (fst (eof_handling world0 config0 30010 ''2026-11-04'' 5010 5010
                      ''Playlist not exist:'' False iter_notified))"
proof -
  have n: "self_last_error iter_notified = ''Playlist not exist:''"
    "5010 - self_timestamp iter_notified \<le> 3600"
    by (simp_all add: iter_notified_def)
  have recip: "mail_recip config0 \<noteq> []"
    by (simp add: config0_def)
  have lvl: "mail_level config0 \<in> set [''INFO'', ''WARNING'', ''ERROR'']"
    by (simp add: config0_def)
  have j: "fmt_src (self_json_file iter_notified) = ''/playlists/2026/11/2026-11-04.json''"
    by (simp add: iter_notified_def iter0_def fmt_src_def)
  from eof_second_call obtain s where
    s: "snd (eof_handling world0 config0 30010 ''2026-11-04'' 5010 5010
               ''Playlist not exist:'' False iter_notified) = Inr s"
    by blast
  from eof_handling_mails_every_call [OF s recip lvl]
  have "Mail ''Playlist not exist: /playlists/2026/11/2026-11-04.json''
       \<in> set (fst (eof_handling world0 config0 30010 ''2026-11-04'' 5010 5010
                      ''Playlist not exist:'' False iter_notified))"
    by (simp add: j)
  with eof_first_call n recip lvl show ?thesis by blast
qed

end
